theory Spec2Isabelle
  imports Complex_Main
begin

section \<open>Numeric model\<close>

text \<open>
  The program computes with numpy arrays of 64-bit floats. The embedding reads every
  finite float as the real number it denotes and every numpy operation as the exact
  operation on reals: \<^verbatim>\<open>np.log\<close> is \<open>ln\<close>, \<^verbatim>\<open>np.exp\<close> is \<open>exp\<close>,
  \<^verbatim>\<open>np.power\<close> is \<open>powr\<close> (they agree on a positive base). Rounding, infinities and
  NaN are outside the model; where a result depends on an argument being positive or
  nonzero, the theorem carries that hypothesis.

  The arrays held by \<^verbatim>\<open>ModelData\<close> are nested lists, so that their shapes are what
  \<^verbatim>\<open>validate\<close> asserts. The arrays the solver computes are index functions, read on
  \<open>i < n_countries\<close> and \<open>s < n_sectors\<close>.
\<close>

type_synonym vec = "nat \<Rightarrow> real"
type_synonym mat = "nat \<Rightarrow> nat \<Rightarrow> real"
type_synonym ten = "nat \<Rightarrow> nat \<Rightarrow> nat \<Rightarrow> real"

datatype py_error =
    ValueError string
  | IndexError
  | UnboundLocalError string
  | AssertionError
  | ZeroDivisionError

section \<open>data.py: the parameters\<close>

record ModelDims =
  n_countries :: nat
  n_sectors :: nat

record ModelData =
  dims :: ModelDims
  countries :: "string list"
  sectors :: "string list"
  a :: "real list list"
  L :: "real list"
  D :: "real list"
  alpha :: "real list list list"
  beta :: "real list list"
  z :: "real list list"
  sigma :: "real list"
  gamma :: "real list list list"
  tariff :: "real list list list"
  iceberg :: "real list list list"
  trade_flows :: "real list list list option"

subsection \<open>Loading the parameters\<close>

text \<open>
  \<^verbatim>\<open>load_inputs\<close> reads CSV files. The model starts from the rows of each file with
  their fields already converted by \<^verbatim>\<open>int\<close> and \<^verbatim>\<open>float\<close>; a missing required file, a
  missing column or a field that does not parse raises before anything modelled here.
  An optional file that does not exist is \<open>None\<close>.
\<close>

type_synonym name_row = "int \<times> string option \<times> string option"
type_synonym row1 = "int \<times> real"
type_synonym row2 = "int \<times> int \<times> real"
type_synonym row3 = "int \<times> int \<times> int \<times> real"

record input_files =
  countries_csv :: "name_row list"
  sectors_csv :: "name_row list"
  trade_flows_csv :: "row3 list"
  tariffs_baseline_csv :: "row3 list"
  io_coeffs_csv :: "row3 list"
  elasticities_csv :: "row1 list"
  labor_endowments_csv :: "row1 list"
  trade_balance_csv :: "row1 list"
  iceberg_costs_csv :: "row3 list option"
  gamma_weights_csv :: "row3 list option"
  productivity_csv :: "row2 list option"
  utility_weights_csv :: "row2 list option"

definition sum_bind :: "py_error + 'a \<Rightarrow> ('a \<Rightarrow> py_error + 'b) \<Rightarrow> py_error + 'b" where
  "sum_bind m f = (case m of Inl e \<Rightarrow> Inl e | Inr x \<Rightarrow> f x)"

text \<open>
  An index into a sequence of length \<open>n\<close>, for Python lists and numpy arrays alike: a
  negative index counts from the end, anything outside \<open>[-n, n)\<close> raises
  \<^verbatim>\<open>IndexError\<close>.
\<close>

definition py_index :: "nat \<Rightarrow> int \<Rightarrow> py_error + nat" where
  "py_index n i =
     (if 0 \<le> i \<and> i < int n then Inr (nat i)
      else if - int n \<le> i \<and> i < 0 then Inr (nat (i + int n))
      else Inl IndexError)"

definition set1 :: "'a list \<Rightarrow> int \<Rightarrow> 'a \<Rightarrow> py_error + 'a list" where
  "set1 xs i v = sum_bind (py_index (length xs) i) (\<lambda>k. Inr (xs[k := v]))"

definition set2 :: "nat \<Rightarrow> nat \<Rightarrow> real list list \<Rightarrow> int \<Rightarrow> int \<Rightarrow> real \<Rightarrow> py_error + real list list" where
  "set2 n1 n2 arr i s v =
     sum_bind (py_index n1 i) (\<lambda>k. sum_bind (py_index n2 s) (\<lambda>l.
       Inr (arr[k := (arr ! k)[l := v]])))"

definition set3 ::
  "nat \<Rightarrow> nat \<Rightarrow> nat \<Rightarrow> real list list list \<Rightarrow> int \<Rightarrow> int \<Rightarrow> int \<Rightarrow> real
     \<Rightarrow> py_error + real list list list" where
  "set3 n1 n2 n3 arr i j s v =
     sum_bind (py_index n1 i) (\<lambda>k. sum_bind (py_index n2 j) (\<lambda>l. sum_bind (py_index n3 s) (\<lambda>m.
       Inr (arr[k := (arr ! k)[l := (arr ! k ! l)[m := v]]]))))"

text \<open>The loops \<^verbatim>\<open>for r in rows: arr[...] = float(r[...])\<close>.\<close>

fun assign1 :: "row1 list \<Rightarrow> real list \<Rightarrow> py_error + real list" where
  "assign1 [] arr = Inr arr"
| "assign1 ((i, v) # rows) arr = sum_bind (set1 arr i v) (assign1 rows)"

fun assign2 :: "nat \<Rightarrow> nat \<Rightarrow> row2 list \<Rightarrow> real list list \<Rightarrow> py_error + real list list" where
  "assign2 n1 n2 [] arr = Inr arr"
| "assign2 n1 n2 ((i, s, v) # rows) arr = sum_bind (set2 n1 n2 arr i s v) (assign2 n1 n2 rows)"

fun assign3 ::
  "nat \<Rightarrow> nat \<Rightarrow> nat \<Rightarrow> row3 list \<Rightarrow> real list list list \<Rightarrow> py_error + real list list list" where
  "assign3 n1 n2 n3 [] arr = Inr arr"
| "assign3 n1 n2 n3 ((i, j, s, v) # rows) arr =
     sum_bind (set3 n1 n2 n3 arr i j s v) (assign3 n1 n2 n3 rows)"

text \<open>\<^verbatim>\<open>r.get("country_code") or r.get("country_name") or ""\<close>\<close>

definition label :: "string option \<Rightarrow> string option \<Rightarrow> string" where
  "label code name =
     (case code of
        Some c \<Rightarrow> if c \<noteq> [] then c else (case name of Some m \<Rightarrow> m | None \<Rightarrow> [])
      | None \<Rightarrow> (case name of Some m \<Rightarrow> m | None \<Rightarrow> []))"

fun assign_names :: "name_row list \<Rightarrow> string list \<Rightarrow> py_error + string list" where
  "assign_names [] xs = Inr xs"
| "assign_names ((i, code, name) # rows) xs = sum_bind (set1 xs i (label code name)) (assign_names rows)"

text \<open>
  \<^verbatim>\<open>_infer_size\<close>: \<^verbatim>\<open>max\<close> of no row raises \<^verbatim>\<open>ValueError\<close>; the size may be an
  integer below 1 when every id is negative.
\<close>

definition infer_size :: "int list \<Rightarrow> py_error + int" where
  "infer_size ids =
     (if ids = [] then Inl (ValueError ''max() arg is an empty sequence'')
      else Inr (Max (set ids) + 1))"

text \<open>\<^verbatim>\<open>np.zeros\<close>, \<^verbatim>\<open>np.ones\<close> and \<^verbatim>\<open>np.full\<close> refuse a negative dimension.\<close>

definition negative_dims :: py_error where
  "negative_dims = ValueError ''negative dimensions are not allowed''"

definition np_full1 :: "int \<Rightarrow> real \<Rightarrow> py_error + real list" where
  "np_full1 n1 v = (if n1 < 0 then Inl negative_dims else Inr (replicate (nat n1) v))"

definition np_full2 :: "int \<Rightarrow> int \<Rightarrow> real \<Rightarrow> py_error + real list list" where
  "np_full2 n1 n2 v =
     (if n1 < 0 \<or> n2 < 0 then Inl negative_dims
      else Inr (replicate (nat n1) (replicate (nat n2) v)))"

definition np_full3 :: "int \<Rightarrow> int \<Rightarrow> int \<Rightarrow> real \<Rightarrow> py_error + real list list list" where
  "np_full3 n1 n2 n3 v =
     (if n1 < 0 \<or> n2 < 0 \<or> n3 < 0 then Inl negative_dims
      else Inr (replicate (nat n1) (replicate (nat n2) (replicate (nat n3) v))))"

text \<open>The shape assertions of \<^verbatim>\<open>ModelData.validate\<close>.\<close>

definition shape1 :: "nat \<Rightarrow> real list \<Rightarrow> bool" where
  "shape1 n1 xs = (length xs = n1)"

definition shape2 :: "nat \<Rightarrow> nat \<Rightarrow> real list list \<Rightarrow> bool" where
  "shape2 n1 n2 xs = (length xs = n1 \<and> list_all (shape1 n2) xs)"

definition shape3 :: "nat \<Rightarrow> nat \<Rightarrow> nat \<Rightarrow> real list list list \<Rightarrow> bool" where
  "shape3 n1 n2 n3 xs = (length xs = n1 \<and> list_all (shape2 n2 n3) xs)"

definition validate :: "ModelData \<Rightarrow> py_error + unit" where
  "validate d =
     (let N = n_countries (dims d); S = n_sectors (dims d)
      in if shape2 N S (a d) \<and> shape1 N (L d) \<and> shape1 N (D d) \<and> shape3 N S S (alpha d) \<and>
            shape2 N S (beta d) \<and> shape2 N S (z d) \<and> shape1 S (sigma d) \<and>
            shape3 N N S (gamma d) \<and> shape3 N N S (tariff d) \<and> shape3 N N S (iceberg d)
         then Inr () else Inl AssertionError)"

definition labor_shares_negative :: py_error where
  "labor_shares_negative =
     ValueError ''Labor shares implied by io_coeffs are negative. Check IO shares.''"

text \<open>
  The first part of \<^verbatim>\<open>load_inputs\<close>, up to the input-output coefficients: the sizes,
  the labels, the trade flows, the tariffs and \<open>alpha\<close>.
\<close>

definition load_alpha ::
  "input_files \<Rightarrow>
     py_error + (int \<times> int \<times> string list \<times> string list \<times> real list list list \<times>
                 real list list list \<times> real list list list)" where
  "load_alpha f =
     sum_bind (infer_size (map fst (countries_csv f))) (\<lambda>nc.
     sum_bind (infer_size (map fst (sectors_csv f))) (\<lambda>ns.
     sum_bind (assign_names (countries_csv f) (replicate (nat nc) [])) (\<lambda>cnames.
     sum_bind (assign_names (sectors_csv f) (replicate (nat ns) [])) (\<lambda>snames.
     sum_bind (np_full3 nc nc ns 0) (\<lambda>tf0.
     sum_bind (assign3 (nat nc) (nat nc) (nat ns)
                 (trade_flows_csv f) tf0) (\<lambda>tf.
     sum_bind (np_full3 nc nc ns 1) (\<lambda>tar0.
     sum_bind (assign3 (nat nc) (nat nc) (nat ns)
                 (map (\<lambda>(i, j, s, rate). (i, j, s, 1 + rate)) (tariffs_baseline_csv f))
                 tar0) (\<lambda>tar.
     sum_bind (np_full3 nc ns ns 0) (\<lambda>al0.
     sum_bind (assign3 (nat nc) (nat ns) (nat ns)
                 (io_coeffs_csv f) al0) (\<lambda>al.
     Inr (nc, ns, cnames, snames, tf, tar, al)))))))))))"

text \<open>\<^verbatim>\<open>beta = 1.0 - alpha.sum(axis=2)\<close> and the test \<^verbatim>\<open>np.any(beta < -1e-8)\<close>.\<close>

definition implied_beta :: "real list list list \<Rightarrow> real list list" where
  "implied_beta al = map (map (\<lambda>row. 1 - sum_list row)) al"

definition any_below :: "real \<Rightarrow> real list list \<Rightarrow> bool" where
  "any_below bound xs = list_ex (list_ex (\<lambda>x. x < bound)) xs"

text \<open>
  Armington weights inferred from the baseline flows:
  \<^verbatim>\<open>denom = trade_flows.sum(axis=1, keepdims=True)\<close>,
  \<^verbatim>\<open>np.where(denom > 0, trade_flows / denom, 0.0)\<close>.
\<close>

definition infer_gamma :: "nat \<Rightarrow> real list list list \<Rightarrow> real list list list" where
  "infer_gamma n_sec tf =
     map (\<lambda>by_exporter.
            map (\<lambda>by_sector.
                   map (\<lambda>s. let dn = sum_list (map (\<lambda>r. r ! s) by_exporter)
                            in if dn > 0 then by_sector ! s / dn else 0) [0..<n_sec])
                by_exporter) tf"

text \<open>\<^verbatim>\<open>a_sum = a.sum(axis=1, keepdims=True)\<close>, \<^verbatim>\<open>np.where(a_sum > 0, a / a_sum, a)\<close>.\<close>

definition normalize_rows :: "real list list \<Rightarrow> real list list" where
  "normalize_rows xs =
     map (\<lambda>row. let a_sum = sum_list row in map (\<lambda>x. if a_sum > 0 then x / a_sum else x) row) xs"

definition load_inputs :: "input_files \<Rightarrow> py_error + ModelData" where
  "load_inputs f =
     sum_bind (load_alpha f)
       (\<lambda>(nc, ns, cnames, snames, tf, tar, al).
     let be = implied_beta al in
     if any_below (- (1 / 10 ^ 8)) be then Inl labor_shares_negative
     else
     sum_bind (np_full1 ns 0) (\<lambda>sg0.
     sum_bind (assign1 (elasticities_csv f) sg0) (\<lambda>sg.
     sum_bind (np_full1 nc 0) (\<lambda>lab0.
     sum_bind (assign1 (labor_endowments_csv f) lab0) (\<lambda>lab.
     sum_bind (np_full1 nc 0) (\<lambda>bal0.
     sum_bind (assign1 (trade_balance_csv f) bal0) (\<lambda>bal.
     sum_bind (np_full3 nc nc ns 1) (\<lambda>ice0.
     sum_bind (case iceberg_costs_csv f of
                 None \<Rightarrow> Inr ice0
               | Some rows \<Rightarrow> assign3 (nat nc) (nat nc) (nat ns)
                                rows ice0) (\<lambda>ice.
     sum_bind (case gamma_weights_csv f of
                 None \<Rightarrow> Inr (infer_gamma (nat ns) tf)
               | Some rows \<Rightarrow>
                   sum_bind (np_full3 nc nc ns 0)
                     (assign3 (nat nc) (nat nc) (nat ns) rows)) (\<lambda>gam.
     sum_bind (np_full2 nc ns 1) (\<lambda>prod0.
     sum_bind (case productivity_csv f of
                 None \<Rightarrow> Inr prod0
               | Some rows \<Rightarrow> assign2 (nat nc) (nat ns) rows prod0) (\<lambda>prod.
     sum_bind (if ns = 0 then Inl ZeroDivisionError
               else np_full2 nc ns (1 / real_of_int ns)) (\<lambda>util0.
     sum_bind (case utility_weights_csv f of
                 None \<Rightarrow> Inr util0
               | Some rows \<Rightarrow>
                   sum_bind (np_full2 nc ns 0) (\<lambda>util1.
                   sum_bind (assign2 (nat nc) (nat ns) rows util1) (\<lambda>util2.
                   Inr (normalize_rows util2)))) (\<lambda>util.
     let data = \<lparr>dims = \<lparr>n_countries = nat nc, n_sectors = nat ns\<rparr>,
                 countries = cnames, sectors = snames, a = util, L = lab, D = bal,
                 alpha = al, beta = be, z = prod, sigma = sg, gamma = gam,
                 tariff = tar, iceberg = ice, trade_flows = Some tf\<rparr>
     in sum_bind (validate data) (\<lambda>_. Inr data)))))))))))))))"

section \<open>equilibrium.py\<close>

record EquilibriumResult =
  wages :: vec
  prices :: mat
  trade_shares :: ten
  revenues :: mat
  income :: vec
  tariff_revenue :: vec
  real_income :: vec

subsection \<open>Unit costs\<close>

text \<open>\<^verbatim>\<open>np.einsum("isk,ik->is", data.alpha, log_p)\<close>\<close>

definition io_term :: "ModelData \<Rightarrow> mat \<Rightarrow> mat" where
  "io_term d log_p = (\<lambda>i s. \<Sum>k<n_sectors (dims d). alpha d ! i ! s ! k * log_p i k)"

definition unit_costs :: "ModelData \<Rightarrow> vec \<Rightarrow> mat \<Rightarrow> mat" where
  "unit_costs d w p =
     (let log_w = (\<lambda>i. ln (w i));
          log_p = (\<lambda>i k. ln (p i k));
          log_c = (\<lambda>i s. - ln (z d ! i ! s) + beta d ! i ! s * log_w i + io_term d log_p i s)
      in (\<lambda>i s. exp (log_c i s)))"

subsection \<open>CES prices and trade shares\<close>

text \<open>\<^verbatim>\<open>delivered = costs[None, :, :] * iceberg * tariff\<close>\<close>

definition delivered :: "mat \<Rightarrow> real list list list \<Rightarrow> real list list list \<Rightarrow> ten" where
  "delivered costs tar ice = (\<lambda>i j s. costs j s * ice ! i ! j ! s * tar ! i ! j ! s)"

definition ces_power :: "ModelData \<Rightarrow> nat \<Rightarrow> real" where
  "ces_power d s = 1 - sigma d ! s"

definition ces_term :: "ModelData \<Rightarrow> mat \<Rightarrow> real list list list \<Rightarrow> real list list list \<Rightarrow> ten" where
  "ces_term d costs tar ice = (\<lambda>i j s. gamma d ! i ! j ! s * delivered costs tar ice i j s powr ces_power d s)"

text \<open>\<^verbatim>\<open>denom = term.sum(axis=1)\<close>: the sum over the exporter index.\<close>

definition denom :: "ModelData \<Rightarrow> mat \<Rightarrow> real list list list \<Rightarrow> real list list list \<Rightarrow> mat" where
  "denom d costs tar ice = (\<lambda>i s. \<Sum>j<n_countries (dims d). ces_term d costs tar ice i j s)"

text \<open>
  \<^verbatim>\<open>np.where(denom[:, None, :] > 0, term / denom[:, None, :], 0.0)\<close> evaluates the
  quotient everywhere (numpy array division raises nothing; on a zero divisor it
  yields inf or nan) and then selects elementwise, so the quotient is only read
  where the divisor is positive.
\<close>

definition price_index ::
  "ModelData \<Rightarrow> mat \<Rightarrow> real list list list \<Rightarrow> real list list list \<Rightarrow> mat \<times> ten" where
  "price_index d costs tar ice =
     (let term = ces_term d costs tar ice;
          dn = denom d costs tar ice;
          new_prices = (\<lambda>i s. dn i s powr (1 / ces_power d s));
          shares = (\<lambda>i j s. if dn i s > 0 then term i j s / dn i s else 0)
      in (new_prices, shares))"

subsection \<open>The income and revenue fixed point\<close>

text \<open>
  \<^verbatim>\<open>np.max\<close> of an array with no element raises \<^verbatim>\<open>ValueError\<close>; otherwise it is
  the greatest element.
\<close>

definition zero_size :: py_error where
  "zero_size = ValueError ''zero-size array to reduction operation maximum which has no identity''"

definition np_max1 :: "nat \<Rightarrow> vec \<Rightarrow> py_error + real" where
  "np_max1 n f = (if n = 0 then Inl zero_size else Inr (Max (f ` {..<n})))"

definition np_max2 :: "nat \<Rightarrow> nat \<Rightarrow> mat \<Rightarrow> py_error + real" where
  "np_max2 n m f =
     (if n = 0 \<or> m = 0 then Inl zero_size
      else Inr (Max ((\<lambda>(i, s). f i s) ` ({..<n} \<times> {..<m}))))"

text \<open>\<^verbatim>\<open>np.abs(x_new - x) / (np.abs(x) + 1e-12)\<close>\<close>

definition rel_diff :: "real \<Rightarrow> real \<Rightarrow> real" where
  "rel_diff x_new x = \<bar>x_new - x\<bar> / (\<bar>x\<bar> + 1 / 10 ^ 12)"

definition exp_final :: "ModelData \<Rightarrow> vec \<Rightarrow> mat" where
  "exp_final d ic = (\<lambda>i s. a d ! i ! s * ic i)"

text \<open>\<^verbatim>\<open>np.einsum("isk,is->ik", data.alpha, revenues)\<close>\<close>

definition exp_intermediate :: "ModelData \<Rightarrow> mat \<Rightarrow> mat" where
  "exp_intermediate d rv = (\<lambda>i k. \<Sum>s<n_sectors (dims d). alpha d ! i ! s ! k * rv i s)"

definition total_exp :: "ModelData \<Rightarrow> vec \<Rightarrow> mat \<Rightarrow> mat" where
  "total_exp d ic rv = (\<lambda>i s. exp_final d ic i s + exp_intermediate d rv i s)"

text \<open>\<^verbatim>\<open>flows = trade_shares * total_exp[:, None, :]\<close>\<close>

definition flows :: "ModelData \<Rightarrow> ten \<Rightarrow> vec \<Rightarrow> mat \<Rightarrow> ten" where
  "flows d ts ic rv = (\<lambda>i j s. ts i j s * total_exp d ic rv i s)"

definition tariff_component :: "real list list list \<Rightarrow> ten" where
  "tariff_component tar = (\<lambda>i j s. (tar ! i ! j ! s - 1) / tar ! i ! j ! s)"

text \<open>\<^verbatim>\<open>np.sum(tariff_component * flows, axis=(1, 2))\<close>\<close>

definition tariff_rev :: "ModelData \<Rightarrow> ten \<Rightarrow> real list list list \<Rightarrow> vec \<Rightarrow> mat \<Rightarrow> vec" where
  "tariff_rev d ts tar ic rv =
     (\<lambda>i. \<Sum>j<n_countries (dims d). \<Sum>s<n_sectors (dims d).
            tariff_component tar i j s * flows d ts ic rv i j s)"

definition income_new ::
  "ModelData \<Rightarrow> ten \<Rightarrow> real list list list \<Rightarrow> vec \<Rightarrow> vec \<Rightarrow> mat \<Rightarrow> vec" where
  "income_new d ts tar w ic rv = (\<lambda>i. w i * L d ! i + tariff_rev d ts tar ic rv i + D d ! i)"

text \<open>
  \<^verbatim>\<open>np.sum(flows / (iceberg * tariff), axis=0)\<close>: axis 0 of \<open>flows\<close> is the importer,
  so the entry \<open>(j, s)\<close> of the result adds up what every importer buys from \<open>j\<close>.
\<close>

definition revenues_new ::
  "ModelData \<Rightarrow> ten \<Rightarrow> real list list list \<Rightarrow> real list list list \<Rightarrow> vec \<Rightarrow> mat \<Rightarrow> mat" where
  "revenues_new d ts tar ice ic rv =
     (\<lambda>j s. \<Sum>i<n_countries (dims d). flows d ts ic rv i j s / (ice ! i ! j ! s * tar ! i ! j ! s))"

definition inner_max_diff ::
  "ModelData \<Rightarrow> ten \<Rightarrow> real list list list \<Rightarrow> real list list list \<Rightarrow> vec \<Rightarrow> vec \<Rightarrow> mat
     \<Rightarrow> py_error + real" where
  "inner_max_diff d ts tar ice w ic rv =
     (case np_max1 (n_countries (dims d)) (\<lambda>i. rel_diff (income_new d ts tar w ic rv i) (ic i)) of
        Inl e \<Rightarrow> Inl e
      | Inr m1 \<Rightarrow>
          (case np_max2 (n_countries (dims d)) (n_sectors (dims d))
                  (\<lambda>i s. rel_diff (revenues_new d ts tar ice ic rv i s) (rv i s)) of
             Inl e \<Rightarrow> Inl e
           | Inr m2 \<Rightarrow> Inr (max m1 m2)))"

text \<open>
  The loop \<^verbatim>\<open>for _ in range(max_iter)\<close>, by recursion on the iterations left. The
  local \<^verbatim>\<open>tariff_rev\<close> is first assigned inside the loop body, so it is unbound until
  one iteration has run; the final \<^verbatim>\<open>return\<close> reads it.
\<close>

fun income_revenue_loop ::
  "ModelData \<Rightarrow> ten \<Rightarrow> real list list list \<Rightarrow> real list list list \<Rightarrow> vec \<Rightarrow> real \<Rightarrow> nat
     \<Rightarrow> vec \<times> mat \<times> vec option \<Rightarrow> py_error + (vec \<times> mat \<times> vec)" where
  "income_revenue_loop d ts tar ice w tol 0 (ic, rv, tr) =
     (case tr of
        None \<Rightarrow> Inl (UnboundLocalError ''tariff_rev'')
      | Some t \<Rightarrow> Inr (ic, rv, t))"
| "income_revenue_loop d ts tar ice w tol (Suc n) (ic, rv, tr) =
     (case inner_max_diff d ts tar ice w ic rv of
        Inl e \<Rightarrow> Inl e
      | Inr max_diff \<Rightarrow>
          if max_diff < tol
          then Inr (income_new d ts tar w ic rv, revenues_new d ts tar ice ic rv,
                    tariff_rev d ts tar ic rv)
          else income_revenue_loop d ts tar ice w tol n
                 (\<lambda>i. 0.5 * ic i + 0.5 * income_new d ts tar w ic rv i,
                  \<lambda>i s. 0.5 * rv i s + 0.5 * revenues_new d ts tar ice ic rv i s,
                  Some (tariff_rev d ts tar ic rv)))"

text \<open>\<^verbatim>\<open>range(max_iter)\<close> is empty for a negative \<^verbatim>\<open>max_iter\<close>.\<close>

definition solve_income_and_revenue ::
  "ModelData \<Rightarrow> ten \<Rightarrow> real list list list \<Rightarrow> real list list list \<Rightarrow> vec \<Rightarrow> vec \<Rightarrow> mat
     \<Rightarrow> int \<Rightarrow> real \<Rightarrow> py_error + (vec \<times> mat \<times> vec)" where
  "solve_income_and_revenue d ts tar ice w income_init revenue_init max_iter tol =
     income_revenue_loop d ts tar ice w tol (nat max_iter) (income_init, revenue_init, None)"

definition inner_default_max_iter :: int where
  "inner_default_max_iter = 500"

definition inner_default_tol :: real where
  "inner_default_tol = 1 / 10 ^ 9"

text \<open>
  The iterates of the loop: \<open>blend_step\<close> is the assignment to \<^verbatim>\<open>income\<close> and
  \<^verbatim>\<open>revenues\<close> at the end of the body, \<open>inner_iterate k\<close> the pair after \<open>k\<close>
  iterations that did not return, and \<open>inner_converged\<close>, \<open>inner_continues\<close> the
  two outcomes of the test \<^verbatim>\<open>max_diff < tol\<close> in an iteration that raises nothing.
\<close>

definition blend_step ::
  "ModelData \<Rightarrow> ten \<Rightarrow> real list list list \<Rightarrow> real list list list \<Rightarrow> vec \<Rightarrow> vec \<times> mat
     \<Rightarrow> vec \<times> mat" where
  "blend_step d ts tar ice w st =
     (\<lambda>i. 0.5 * fst st i + 0.5 * income_new d ts tar w (fst st) (snd st) i,
      \<lambda>i s. 0.5 * snd st i s + 0.5 * revenues_new d ts tar ice (fst st) (snd st) i s)"

fun inner_iterate ::
  "ModelData \<Rightarrow> ten \<Rightarrow> real list list list \<Rightarrow> real list list list \<Rightarrow> vec \<Rightarrow> nat \<Rightarrow> vec \<times> mat
     \<Rightarrow> vec \<times> mat" where
  "inner_iterate d ts tar ice w 0 st = st"
| "inner_iterate d ts tar ice w (Suc k) st = inner_iterate d ts tar ice w k (blend_step d ts tar ice w st)"

definition inner_converged ::
  "ModelData \<Rightarrow> ten \<Rightarrow> real list list list \<Rightarrow> real list list list \<Rightarrow> vec \<Rightarrow> real \<Rightarrow> vec \<times> mat
     \<Rightarrow> bool" where
  "inner_converged d ts tar ice w tol st =
     (case inner_max_diff d ts tar ice w (fst st) (snd st) of
        Inl e \<Rightarrow> False | Inr max_diff \<Rightarrow> max_diff < tol)"

definition inner_continues ::
  "ModelData \<Rightarrow> ten \<Rightarrow> real list list list \<Rightarrow> real list list list \<Rightarrow> vec \<Rightarrow> real \<Rightarrow> vec \<times> mat
     \<Rightarrow> bool" where
  "inner_continues d ts tar ice w tol st =
     (case inner_max_diff d ts tar ice w (fst st) (snd st) of
        Inl e \<Rightarrow> False | Inr max_diff \<Rightarrow> \<not> max_diff < tol)"

subsection \<open>One iteration of the income and revenue loop, in the words of the specification\<close>

text \<open>
  The formulas of the specification, for comparison with the definitions above:
  \<open>revenue_new[i,s] = \<Sum>\<^sub>j flows[i,j,s] / (iceberg[i,j,s] * tariff[i,j,s])\<close>
  sums over the second index of \<open>flows\<close>.
\<close>

definition spec_flows :: "ModelData \<Rightarrow> ten \<Rightarrow> vec \<Rightarrow> mat \<Rightarrow> ten" where
  "spec_flows d ts ic rv =
     (\<lambda>i j s. ts i j s *
        (a d ! i ! s * ic i + (\<Sum>s'<n_sectors (dims d). alpha d ! i ! s' ! s * rv i s')))"

definition spec_tariff_revenue ::
  "ModelData \<Rightarrow> ten \<Rightarrow> real list list list \<Rightarrow> vec \<Rightarrow> mat \<Rightarrow> vec" where
  "spec_tariff_revenue d ts tar ic rv =
     (\<lambda>i. \<Sum>j<n_countries (dims d). \<Sum>s<n_sectors (dims d).
            ((tar ! i ! j ! s - 1) / tar ! i ! j ! s) * spec_flows d ts ic rv i j s)"

definition spec_income_new ::
  "ModelData \<Rightarrow> ten \<Rightarrow> real list list list \<Rightarrow> vec \<Rightarrow> vec \<Rightarrow> mat \<Rightarrow> vec" where
  "spec_income_new d ts tar w ic rv =
     (\<lambda>i. w i * L d ! i + spec_tariff_revenue d ts tar ic rv i + D d ! i)"

definition spec_revenue_new ::
  "ModelData \<Rightarrow> ten \<Rightarrow> real list list list \<Rightarrow> real list list list \<Rightarrow> vec \<Rightarrow> mat \<Rightarrow> mat" where
  "spec_revenue_new d ts tar ice ic rv =
     (\<lambda>i s. \<Sum>j<n_countries (dims d).
        spec_flows d ts ic rv i j s / (ice ! i ! j ! s * tar ! i ! j ! s))"

definition ex_ts :: ten where "ex_ts = (\<lambda>i j s. if i = 0 then 1/2 else 0)"

subsection \<open>Real income and welfare\<close>

definition calc_real_income :: "ModelData \<Rightarrow> vec \<Rightarrow> mat \<Rightarrow> vec" where
  "calc_real_income d inc p =
     (let log_price_index = (\<lambda>i. \<Sum>s<n_sectors (dims d). a d ! i ! s * ln (p i s));
          price_idx = (\<lambda>i. exp (log_price_index i))
      in (\<lambda>i. inc i / price_idx i))"

definition welfare_change :: "EquilibriumResult \<Rightarrow> EquilibriumResult \<Rightarrow> vec" where
  "welfare_change base new = (\<lambda>i. (real_income new i / real_income base i - 1) * 100)"

subsection \<open>The outer solver\<close>

text \<open>
  The locals of \<^verbatim>\<open>solve_equilibrium\<close> that the loop carries. \<^verbatim>\<open>trade_shares\<close> and
  \<^verbatim>\<open>tariff_rev\<close> are first assigned inside the loop body.
\<close>

record solver_state =
  st_wages :: vec
  st_prices :: mat
  st_income :: vec
  st_revenues :: mat
  st_tariff_rev :: "vec option"
  st_trade_shares :: "ten option"

definition outer_default_max_iter :: int where
  "outer_default_max_iter = 2000"

definition outer_default_tol :: real where
  "outer_default_tol = 1 / 10 ^ 8"

definition outer_default_damp :: real where
  "outer_default_damp = 3 / 10"

text \<open>
  The first half of the loop body: unit costs, CES prices and shares, and the inner
  fixed point, which is always called with its default budget and tolerance.
\<close>

definition outer_inner ::
  "ModelData \<Rightarrow> real list list list \<Rightarrow> real list list list \<Rightarrow> solver_state
     \<Rightarrow> py_error + (mat \<times> ten \<times> vec \<times> mat \<times> vec)" where
  "outer_inner d tar ice st =
     (let costs = unit_costs d (st_wages st) (st_prices st);
          new_prices = fst (price_index d costs tar ice);
          ts = snd (price_index d costs tar ice)
      in case solve_income_and_revenue d ts tar ice (st_wages st) (st_income st) (st_revenues st)
                inner_default_max_iter inner_default_tol of
           Inl e \<Rightarrow> Inl e
         | Inr (ic, rv, trv) \<Rightarrow> Inr (new_prices, ts, ic, rv, trv))"

text \<open>\<^verbatim>\<open>labor_demand = np.sum(data.beta * revenues, axis=1) / wages\<close>\<close>

definition labor_demand :: "ModelData \<Rightarrow> mat \<Rightarrow> vec \<Rightarrow> vec" where
  "labor_demand d rv w = (\<lambda>i. (\<Sum>s<n_sectors (dims d). beta d ! i ! s * rv i s) / w i)"

text \<open>\<^verbatim>\<open>wages_new = wages * np.power(labor_demand / data.L, damp)\<close>, before it is normalized.\<close>

definition wages_raw :: "ModelData \<Rightarrow> real \<Rightarrow> vec \<Rightarrow> mat \<Rightarrow> vec" where
  "wages_raw d damp w rv = (\<lambda>i. w i * (labor_demand d rv w i / L d ! i) powr damp)"

definition damp_prices :: "real \<Rightarrow> mat \<Rightarrow> mat \<Rightarrow> mat" where
  "damp_prices damp p new_prices = (\<lambda>i s. (1 - damp) * p i s + damp * new_prices i s)"

definition outer_max_diff :: "ModelData \<Rightarrow> vec \<Rightarrow> vec \<Rightarrow> mat \<Rightarrow> mat \<Rightarrow> py_error + real" where
  "outer_max_diff d w wages_new prices_prev new_prices =
     (case np_max1 (n_countries (dims d)) (\<lambda>i. rel_diff (wages_new i) (w i)) of
        Inl e \<Rightarrow> Inl e
      | Inr m1 \<Rightarrow>
          (case np_max2 (n_countries (dims d)) (n_sectors (dims d))
                  (\<lambda>i s. rel_diff (new_prices i s) (prices_prev i s)) of
             Inl e \<Rightarrow> Inl e
           | Inr m2 \<Rightarrow> Inr (max m1 m2)))"

text \<open>
  One pass through the loop body: the new state and \<^verbatim>\<open>max_diff\<close>. The index
  \<^verbatim>\<open>wages_new[0]\<close> raises \<^verbatim>\<open>IndexError\<close> on an empty array. The progress report under
  \<^verbatim>\<open>verbose\<close> only prints and is left out.
\<close>

definition outer_iteration ::
  "ModelData \<Rightarrow> real list list list \<Rightarrow> real list list list \<Rightarrow> real \<Rightarrow> solver_state
     \<Rightarrow> py_error + (solver_state \<times> real)" where
  "outer_iteration d tar ice damp st =
     (case outer_inner d tar ice st of
        Inl e \<Rightarrow> Inl e
      | Inr (new_prices, ts, ic, rv, trv) \<Rightarrow>
          if n_countries (dims d) = 0 then Inl IndexError
          else
            (let wages_raw = wages_raw d damp (st_wages st) rv;
                 wages_new = (\<lambda>i. wages_raw i / wages_raw 0);
                 prices_prev = st_prices st;
                 p = damp_prices damp (st_prices st) new_prices
             in case outer_max_diff d (st_wages st) wages_new prices_prev new_prices of
                  Inl e \<Rightarrow> Inl e
                | Inr max_diff \<Rightarrow>
                    Inr (\<lparr>st_wages = wages_new, st_prices = p, st_income = ic, st_revenues = rv,
                          st_tariff_rev = Some trv, st_trade_shares = Some ts\<rparr>, max_diff)))"

fun outer_loop ::
  "ModelData \<Rightarrow> real list list list \<Rightarrow> real list list list \<Rightarrow> real \<Rightarrow> real \<Rightarrow> nat
     \<Rightarrow> solver_state \<Rightarrow> py_error + solver_state" where
  "outer_loop d tar ice tol damp 0 st = Inr st"
| "outer_loop d tar ice tol damp (Suc n) st =
     (case outer_iteration d tar ice damp st of
        Inl e \<Rightarrow> Inl e
      | Inr (st', max_diff) \<Rightarrow>
          if max_diff < tol then Inr st' else outer_loop d tar ice tol damp n st')"

definition initial_state :: "ModelData \<Rightarrow> solver_state" where
  "initial_state d =
     \<lparr>st_wages = (\<lambda>i. 1), st_prices = (\<lambda>i s. 1),
      st_income = (\<lambda>i. 1 * L d ! i + D d ! i), st_revenues = (\<lambda>i s. 1),
      st_tariff_rev = None, st_trade_shares = None\<rparr>"

text \<open>
  After the loop the result is built from the locals; reading \<^verbatim>\<open>trade_shares\<close> or
  \<^verbatim>\<open>tariff_rev\<close> raises \<^verbatim>\<open>UnboundLocalError\<close> when no iteration assigned them.
\<close>

definition solve_equilibrium ::
  "ModelData \<Rightarrow> real list list list option \<Rightarrow> real list list list option \<Rightarrow> int \<Rightarrow> real \<Rightarrow> real
     \<Rightarrow> py_error + EquilibriumResult" where
  "solve_equilibrium d tariff_arg iceberg_arg max_iter tol damp =
     (let tar = (case tariff_arg of None \<Rightarrow> tariff d | Some t \<Rightarrow> t);
          ice = (case iceberg_arg of None \<Rightarrow> iceberg d | Some t \<Rightarrow> t)
      in case outer_loop d tar ice tol damp (nat max_iter) (initial_state d) of
           Inl e \<Rightarrow> Inl e
         | Inr st \<Rightarrow>
             (case st_trade_shares st of
                None \<Rightarrow> Inl (UnboundLocalError ''trade_shares'')
              | Some ts \<Rightarrow>
                  (case st_tariff_rev st of
                     None \<Rightarrow> Inl (UnboundLocalError ''tariff_rev'')
                   | Some trv \<Rightarrow>
                       Inr \<lparr>wages = st_wages st, prices = st_prices st, trade_shares = ts,
                            revenues = st_revenues st, income = st_income st,
                            tariff_revenue = trv,
                            real_income = calc_real_income d (st_income st) (st_prices st)\<rparr>)))"

text \<open>
  The hypothesis of the numeraire invariant, followed along the run: in every iteration
  that is executed, the wage update of country 0 is nonzero before it is normalized.
\<close>

fun wage_updates_nonzero ::
  "ModelData \<Rightarrow> real list list list \<Rightarrow> real list list list \<Rightarrow> real \<Rightarrow> real \<Rightarrow> nat
     \<Rightarrow> solver_state \<Rightarrow> bool" where
  "wage_updates_nonzero d tar ice tol damp 0 st = True"
| "wage_updates_nonzero d tar ice tol damp (Suc n) st =
     (case outer_inner d tar ice st of
        Inl e \<Rightarrow> True
      | Inr (new_prices, ts, ic, rv, trv) \<Rightarrow>
          wages_raw d damp (st_wages st) rv 0 \<noteq> 0 \<and>
          (case outer_iteration d tar ice damp st of
             Inl e \<Rightarrow> True
           | Inr (st', max_diff) \<Rightarrow>
               max_diff < tol \<or> wage_updates_nonzero d tar ice tol damp n st'))"

subsection \<open>The convergence measure of the outer solver, in the words of the specification\<close>

text \<open>
  The maximum relative change across wages and prices between consecutive iterates
  \<open>st\<close> and \<open>st'\<close>, each change divided by the regularized absolute value of the
  previous iterate's component.
\<close>

definition spec_max_rel_change :: "ModelData \<Rightarrow> solver_state \<Rightarrow> solver_state \<Rightarrow> py_error + real" where
  "spec_max_rel_change d st st' =
     (case np_max1 (n_countries (dims d)) (\<lambda>i. rel_diff (st_wages st' i) (st_wages st i)) of
        Inl e \<Rightarrow> Inl e
      | Inr m1 \<Rightarrow>
          (case np_max2 (n_countries (dims d)) (n_sectors (dims d))
                  (\<lambda>i s. rel_diff (st_prices st' i s) (st_prices st i s)) of
             Inl e \<Rightarrow> Inl e
           | Inr m2 \<Rightarrow> Inr (max m1 m2)))"

section \<open>optimize.py\<close>

record GAConfig =
  population :: int
  generations :: int
  crossover_rate :: real
  mutation_rate :: real
  mutation_scale :: real
  elite_share :: real
  seed :: "int option"

text \<open>
  numpy's random generator is not code of this repository: its draws are parameters of
  the model, each taking the generator state \<open>'g\<close> and returning the draw with the next
  state. \<open>gen_integers g lo hi k\<close> stands for \<^verbatim>\<open>rng.integers(lo, hi, size=k)\<close> and
  \<open>gen_integer g lo hi\<close> for the scalar \<^verbatim>\<open>rng.integers(lo, hi)\<close>, both for \<open>lo < hi\<close>
  (numpy raises \<^verbatim>\<open>ValueError\<close> otherwise, which the model does before it draws).
\<close>

record 'g generator =
  default_rng :: "int option \<Rightarrow> 'g"
  gen_uniform :: "'g \<Rightarrow> real list \<Rightarrow> real list \<Rightarrow> nat \<Rightarrow> real list list \<times> 'g"
  gen_integers :: "'g \<Rightarrow> int \<Rightarrow> int \<Rightarrow> nat \<Rightarrow> int list \<times> 'g"
  gen_integer :: "'g \<Rightarrow> int \<Rightarrow> int \<Rightarrow> int \<times> 'g"
  gen_random :: "'g \<Rightarrow> real \<times> 'g"
  gen_normal :: "'g \<Rightarrow> real \<Rightarrow> real \<Rightarrow> nat \<Rightarrow> real list \<times> 'g"

definition low_ge_high :: py_error where
  "low_ge_high = ValueError ''low >= high''"

text \<open>Python's \<^verbatim>\<open>int\<close> of a float truncates toward zero.\<close>

definition py_int :: "real \<Rightarrow> int" where
  "py_int x = (if 0 \<le> x then \<lfloor>x\<rfloor> else \<lceil>x\<rceil>)"

text \<open>
  \<^verbatim>\<open>np.argsort\<close>: the indices in ascending order of their values. numpy does not fix the
  order of equal values; the model takes the stable order, and the theorems below use
  only that the result is a permutation of the indices that sorts the values.
\<close>

definition argsort :: "real list \<Rightarrow> nat list" where
  "argsort xs = sort_key (\<lambda>k. xs ! k) [0..<length xs]"

text \<open>\<^verbatim>\<open>np.argmax\<close>: the first index of the greatest value; \<^verbatim>\<open>ValueError\<close> on an empty array.\<close>

definition np_argmax :: "real list \<Rightarrow> py_error + nat" where
  "np_argmax xs =
     (if xs = [] then Inl (ValueError ''attempt to get argmax of an empty sequence'')
      else Inr (length (takeWhile (\<lambda>x. x \<noteq> Max (set xs)) xs)))"

definition take_at :: "'a list \<Rightarrow> int \<Rightarrow> py_error + 'a" where
  "take_at xs i = sum_bind (py_index (length xs) i) (\<lambda>k. Inr (xs ! k))"

text \<open>Indexing with an integer array, \<^verbatim>\<open>scores[idx]\<close>.\<close>

fun gather :: "'a list \<Rightarrow> int list \<Rightarrow> py_error + 'a list" where
  "gather xs [] = Inr []"
| "gather xs (i # idx) =
     sum_bind (take_at xs i) (\<lambda>v. sum_bind (gather xs idx) (\<lambda>vs. Inr (v # vs)))"

text \<open>
  \<^verbatim>\<open>tournament_select\<close> with its default \<open>k = 3\<close>, on the sorted population and
  scores of the generation.
\<close>

definition tournament_select ::
  "'g generator \<Rightarrow> GAConfig \<Rightarrow> real list list \<Rightarrow> real list \<Rightarrow> 'g \<Rightarrow> py_error + (real list \<times> 'g)" where
  "tournament_select ops config pop scores g =
     (if population config \<le> 0 then Inl low_ge_high
      else
        (let (idx, g1) = gen_integers ops g 0 (population config) 3
         in sum_bind (gather scores idx) (\<lambda>vals.
            sum_bind (np_argmax vals) (\<lambda>k.
            sum_bind (take_at pop (idx ! k)) (\<lambda>parent. Inr (parent, g1))))))"

text \<open>\<^verbatim>\<open>np.clip(child, low, high)\<close>, elementwise.\<close>

definition clip :: "real list \<Rightarrow> real list \<Rightarrow> real list \<Rightarrow> real list" where
  "clip child low high = map (\<lambda>(x, lo, hi). min (max x lo) hi) (zip child (zip low high))"

text \<open>One pass through the body of the \<^verbatim>\<open>while\<close> loop: the child that is appended.\<close>

definition make_child ::
  "'g generator \<Rightarrow> GAConfig \<Rightarrow> real list \<Rightarrow> real list \<Rightarrow> real list list \<Rightarrow> real list \<Rightarrow> 'g
     \<Rightarrow> py_error + (real list \<times> 'g)" where
  "make_child ops config low high pop scores g =
     sum_bind (tournament_select ops config pop scores g) (\<lambda>(parent1, g1).
     sum_bind (tournament_select ops config pop scores g1) (\<lambda>(parent2, g2).
     (let dim = length low; (u, g3) = gen_random ops g2
      in sum_bind
           (if u < crossover_rate config
            then (if int dim \<le> 1 then Inl low_ge_high
                  else (let (cross_point, g4) = gen_integer ops g3 1 (int dim)
                        in Inr (take (nat cross_point) parent1 @ drop (nat cross_point) parent2, g4)))
            else Inr (parent1, g3))
           (\<lambda>(child, g5).
              (let (v, g6) = gen_random ops g5;
                   (child1, g7) =
                     (if v < mutation_rate config
                      then (let (noise, g8) = gen_normal ops g6 0 (mutation_scale config) dim
                            in (map (\<lambda>(x, e). x + e) (zip child noise), g8))
                      else (child, g6))
               in Inr (clip child1 low high, g7))))))"

text \<open>
  \<^verbatim>\<open>while len(new_pop) < config.population\<close>: every pass appends one child, so the loop
  runs \<open>population - len(new_pop)\<close> times when that is positive; \<open>fill\<close> recurses on
  the number of passes left.
\<close>

fun fill ::
  "'g generator \<Rightarrow> GAConfig \<Rightarrow> real list \<Rightarrow> real list \<Rightarrow> real list list \<Rightarrow> real list \<Rightarrow> nat
     \<Rightarrow> 'g \<times> real list list \<Rightarrow> py_error + ('g \<times> real list list)" where
  "fill ops config low high pop scores 0 (g, new_pop) = Inr (g, new_pop)"
| "fill ops config low high pop scores (Suc k) (g, new_pop) =
     sum_bind (make_child ops config low high pop scores g) (\<lambda>(child, g1).
       fill ops config low high pop scores k (g1, new_pop @ [child]))"

text \<open>
  One generation. \<^verbatim>\<open>[elites[i].copy() for i in range(elite_n)]\<close> raises
  \<^verbatim>\<open>IndexError\<close> when the population has fewer than \<open>elite_n\<close> members.
\<close>

definition ga_generation ::
  "'g generator \<Rightarrow> (real list \<Rightarrow> real) \<Rightarrow> real list \<Rightarrow> real list \<Rightarrow> GAConfig \<Rightarrow> int
     \<Rightarrow> 'g \<times> real list list \<times> real list \<Rightarrow> py_error + ('g \<times> real list list \<times> real list)" where
  "ga_generation ops objective low high config elite_n st =
     (case st of (g, pop0, scores0) \<Rightarrow>
        (let order = rev (argsort scores0);
             pop = map (\<lambda>k. pop0 ! k) order;
             scores = map (\<lambda>k. scores0 ! k) order;
             elites = take (nat elite_n) pop
         in if int (length elites) < elite_n then Inl IndexError
            else
              sum_bind (fill ops config low high pop scores
                          (nat (population config - int (length elites))) (g, elites))
                (\<lambda>(g1, new_pop). Inr (g1, new_pop, map objective new_pop))))"

fun ga_loop ::
  "'g generator \<Rightarrow> (real list \<Rightarrow> real) \<Rightarrow> real list \<Rightarrow> real list \<Rightarrow> GAConfig \<Rightarrow> int \<Rightarrow> nat
     \<Rightarrow> 'g \<times> real list list \<times> real list \<Rightarrow> py_error + ('g \<times> real list list \<times> real list)" where
  "ga_loop ops objective low high config elite_n 0 st = Inr st"
| "ga_loop ops objective low high config elite_n (Suc n) st =
     sum_bind (ga_generation ops objective low high config elite_n st)
       (ga_loop ops objective low high config elite_n n)"

text \<open>The state before the loop: the sampled population and its scores.\<close>

definition ga_initial ::
  "'g generator \<Rightarrow> (real list \<Rightarrow> real) \<Rightarrow> real list \<Rightarrow> real list \<Rightarrow> GAConfig
     \<Rightarrow> py_error + ('g \<times> real list list \<times> real list)" where
  "ga_initial ops objective low high config =
     (if population config < 0 then Inl negative_dims
      else
        (let (pop, g1) = gen_uniform ops (default_rng ops (seed config)) low high
                           (nat (population config))
         in Inr (g1, pop, map objective pop)))"

definition ga_elite_n :: "GAConfig \<Rightarrow> int" where
  "ga_elite_n config = max 1 (py_int (elite_share config * real_of_int (population config)))"

definition genetic_optimize ::
  "'g generator \<Rightarrow> (real list \<Rightarrow> real) \<Rightarrow> real list \<times> real list \<Rightarrow> GAConfig
     \<Rightarrow> py_error + (real list \<times> real)" where
  "genetic_optimize ops objective bounds config =
     (case bounds of (low, high) \<Rightarrow>
        sum_bind (ga_initial ops objective low high config) (\<lambda>st0.
        sum_bind (ga_loop ops objective low high config (ga_elite_n config)
                    (nat (generations config)) st0) (\<lambda>(g, pop, scores).
        sum_bind (np_argmax scores) (\<lambda>best_idx. Inr (pop ! best_idx, scores ! best_idx)))))"

text \<open>
  The populations the run evaluates, in order: the sampled one and the one each
  generation builds, by the same steps as \<open>ga_loop\<close>.
\<close>

fun ga_populations ::
  "'g generator \<Rightarrow> (real list \<Rightarrow> real) \<Rightarrow> real list \<Rightarrow> real list \<Rightarrow> GAConfig \<Rightarrow> int \<Rightarrow> nat
     \<Rightarrow> 'g \<times> real list list \<times> real list \<Rightarrow> py_error + real list list list" where
  "ga_populations ops objective low high config elite_n 0 st = Inr [fst (snd st)]"
| "ga_populations ops objective low high config elite_n (Suc n) st =
     sum_bind (ga_generation ops objective low high config elite_n st) (\<lambda>st1.
     sum_bind (ga_populations ops objective low high config elite_n n st1) (\<lambda>pops.
       Inr (fst (snd st) # pops)))"

definition evaluated_populations ::
  "'g generator \<Rightarrow> (real list \<Rightarrow> real) \<Rightarrow> real list \<times> real list \<Rightarrow> GAConfig
     \<Rightarrow> py_error + real list list list" where
  "evaluated_populations ops objective bounds config =
     (case bounds of (low, high) \<Rightarrow>
        sum_bind (ga_initial ops objective low high config)
          (ga_populations ops objective low high config (ga_elite_n config)
             (nat (generations config))))"

section \<open>Examples of parameters\<close>

text \<open>
  Two countries, one sector, free trade, \<open>sigma = 2\<close>. Country 0 weighs both origins
  equally; country 1 has no supplier with a positive weight.
\<close>

definition ex_dims :: ModelDims where
  "ex_dims = \<lparr>n_countries = 2, n_sectors = 1\<rparr>"

definition ex_data :: ModelData where
  "ex_data = \<lparr>dims = ex_dims, countries = [''A'', ''B''], sectors = [''g''],
     a = [[1], [1]], L = [1, 1], D = [0, 0],
     alpha = [[[0]], [[0]]], beta = [[1], [1]], z = [[1], [1]],
     sigma = [2],
     gamma = [[[1/2], [1/2]], [[0], [0]]],
     tariff = [[[1], [1]], [[1], [1]]],
     iceberg = [[[1], [1]], [[1], [1]]],
     trade_flows = None\<rparr>"

definition ex_result :: EquilibriumResult where
  "ex_result = \<lparr>wages = (\<lambda>i. 1), prices = (\<lambda>i s. 1), trade_shares = (\<lambda>i j s. 1/2),
     revenues = (\<lambda>i s. 1), income = (\<lambda>i. 1), tariff_revenue = (\<lambda>i. 0),
     real_income = (\<lambda>i. 3)\<rparr>"

text \<open>
  One country, one sector, no tariff, \<open>sigma = 2\<close>, with the Armington weight \<open>g\<close>.
  For \<open>g = 1\<close> the state of all ones is a fixed point.
\<close>

definition one_country :: "real \<Rightarrow> ModelData" where
  "one_country g = \<lparr>dims = \<lparr>n_countries = 1, n_sectors = 1\<rparr>, countries = [''A''], sectors = [''g''],
     a = [[1]], L = [1], D = [0],
     alpha = [[[0]]], beta = [[1]], z = [[1]],
     sigma = [2],
     gamma = [[[g]]],
     tariff = [[[1]]],
     iceberg = [[[1]]],
     trade_flows = None\<rparr>"

definition ex1_data :: ModelData where
  "ex1_data = one_country 1"

text \<open>One country whose CES price is \<open>1 + 2 / 10 ^ 8\<close> at the initial guess.\<close>

definition ex5_data :: ModelData where
  "ex5_data = one_country (50000000 / 50000001)"

text \<open>
  Input files of a one-country, one-sector economy whose only input-output share is
  \<open>io_share\<close> and whose only elasticity is \<open>elast\<close>.
\<close>

definition one_country_files :: "real \<Rightarrow> real \<Rightarrow> input_files" where
  "one_country_files io_share elast =
     \<lparr>countries_csv = [(0, Some ''A'', None)], sectors_csv = [(0, Some ''g'', None)],
      trade_flows_csv = [(0, 0, 0, 1)], tariffs_baseline_csv = [(0, 0, 0, 0)],
      io_coeffs_csv = [(0, 0, 0, io_share)], elasticities_csv = [(0, elast)],
      labor_endowments_csv = [(0, 1)], trade_balance_csv = [(0, 0)],
      iceberg_costs_csv = None, gamma_weights_csv = None, productivity_csv = None,
      utility_weights_csv = None\<rparr>"

text \<open>
  A generator for the examples: it samples the two corners of the box, always draws
  the greatest index and the number 1, and adds no noise. With it no child is
  crossed or mutated.
\<close>

definition ex_generator :: "unit generator" where
  "ex_generator =
     \<lparr>default_rng = (\<lambda>sd. ()),
      gen_uniform = (\<lambda>g low high n. (take n [high, low], g)),
      gen_integers = (\<lambda>g lo hi k. (replicate k (hi - 1), g)),
      gen_integer = (\<lambda>g lo hi. (lo, g)),
      gen_random = (\<lambda>g. (1, g)),
      gen_normal = (\<lambda>g mu sd n. (replicate n 0, g))\<rparr>"

definition ex_config :: GAConfig where
  "ex_config = \<lparr>population = 2, generations = 1, crossover_rate = 8 / 10, mutation_rate = 1 / 10,
     mutation_scale = 5 / 100, elite_share = 1 / 10, seed = Some 0\<rparr>"

section \<open>Theorems\<close>

lemma sum_lessThan_2: "(\<Sum>j<(2::nat). f j) = f 0 + (f 1 :: real)"
  by (simp add: numeral_2_eq_2)

text \<open>
  C1. For every importer \<open>i\<close> and sector \<open>s\<close>, the trade shares returned by
  \<open>price_index\<close> sum to one over the exporters when the CES denominator of \<open>(i, s)\<close>
  is positive, and every share of \<open>(i, s)\<close> is zero when the denominator is zero.
  The function is total: it returns its pair of arrays on every input.
\<close>

theorem price_index_shares_sum:
  "(0 < denom d costs tar ice i s \<longrightarrow>
      (\<Sum>j<n_countries (dims d). snd (price_index d costs tar ice) i j s) = 1) \<and>
   (denom d costs tar ice i s = 0 \<longrightarrow>
      (\<forall>j. snd (price_index d costs tar ice) i j s = 0))"
proof (intro conjI impI)
  assume pos: "0 < denom d costs tar ice i s"
  have "(\<Sum>j<n_countries (dims d). snd (price_index d costs tar ice) i j s)
        = (\<Sum>j<n_countries (dims d). ces_term d costs tar ice i j s / denom d costs tar ice i s)"
    using pos by (simp add: price_index_def Let_def)
  also have "\<dots> = (\<Sum>j<n_countries (dims d). ces_term d costs tar ice i j s) / denom d costs tar ice i s"
    by (simp add: sum_divide_distrib)
  also have "\<dots> = 1"
    using pos by (simp add: denom_def)
  finally show "(\<Sum>j<n_countries (dims d). snd (price_index d costs tar ice) i j s) = 1" .
next
  assume "denom d costs tar ice i s = 0"
  then show "\<forall>j. snd (price_index d costs tar ice) i j s = 0"
    by (simp add: price_index_def Let_def)
qed

lemma ex_denom_0: "denom ex_data (\<lambda>j s. 1) (tariff ex_data) (iceberg ex_data) 0 0 = 1"
  by (simp add: denom_def ces_term_def delivered_def power_def ex_data_def ex_dims_def
      sum_lessThan_2)

lemma ex_denom_1: "denom ex_data (\<lambda>j s. 1) (tariff ex_data) (iceberg ex_data) 1 0 = 0"
  by (simp add: denom_def ces_term_def delivered_def power_def ex_data_def ex_dims_def
      sum_lessThan_2)

theorem price_index_shares_sum_witness:
  "0 < denom ex_data (\<lambda>j s. 1) (tariff ex_data) (iceberg ex_data) 0 0 \<and>
   (\<Sum>j<n_countries (dims ex_data).
      snd (price_index ex_data (\<lambda>j s. 1) (tariff ex_data) (iceberg ex_data)) 0 j 0) = 1 \<and>
   denom ex_data (\<lambda>j s. 1) (tariff ex_data) (iceberg ex_data) 1 0 = 0 \<and>
   (\<forall>j. snd (price_index ex_data (\<lambda>j s. 1) (tariff ex_data) (iceberg ex_data)) 1 j 0 = 0)"
proof -
  have p0: "0 < denom ex_data (\<lambda>j s. 1) (tariff ex_data) (iceberg ex_data) 0 0"
    by (simp add: ex_denom_0)
  note at0 = price_index_shares_sum [of ex_data "\<lambda>j s. 1" "tariff ex_data" "iceberg ex_data" 0 0]
  note at1 = price_index_shares_sum [of ex_data "\<lambda>j s. 1" "tariff ex_data" "iceberg ex_data" 1 0]
  from at0 p0 at1 ex_denom_1 show ?thesis
    by blast
qed

subsection \<open>The income and revenue loop\<close>

lemma flows_spec: "flows d ts ic rv = spec_flows d ts ic rv"
  by (simp add: flows_def spec_flows_def total_exp_def exp_final_def exp_intermediate_def)

lemma tariff_rev_spec: "tariff_rev d ts tar ic rv = spec_tariff_revenue d ts tar ic rv"
  by (simp add: tariff_rev_def spec_tariff_revenue_def tariff_component_def flows_spec)

lemma income_new_spec: "income_new d ts tar w ic rv = spec_income_new d ts tar w ic rv"
  by (simp add: income_new_def spec_income_new_def tariff_rev_spec)

text \<open>
  C3, as stated, fails at the producer revenue: with two countries where only country 0
  buys (half from each origin), the code gives country 0 the revenue 1/2, the sum over
  the importers of what they buy from country 0, while the stated formula gives 1, the
  sum over the origins of what country 0 buys.
\<close>

theorem revenue_new_counterexample:
  "revenues_new ex_data ex_ts (tariff ex_data) (iceberg ex_data) (\<lambda>i. 1) (\<lambda>i s. 1) 0 0 = 1/2 \<and>
   spec_revenue_new ex_data ex_ts (tariff ex_data) (iceberg ex_data) (\<lambda>i. 1) (\<lambda>i s. 1) 0 0 = 1"
  by (simp add: revenues_new_def flows_def total_exp_def exp_final_def exp_intermediate_def
      spec_revenue_new_def spec_flows_def ex_data_def ex_dims_def ex_ts_def sum_lessThan_2)

text \<open>
  C3, amended. One iteration computes, from the current \<open>(ic, rv)\<close>, the flows, the
  tariff revenue and the new income as stated, the new revenue of country \<open>j\<close> in
  sector \<open>s\<close> as the sum over the importers \<open>i\<close> of
  \<open>flows i j s / (iceberg i j s * tariff i j s)\<close>, and, when the loop goes on, passes
  the blend \<open>0.5 * old + 0.5 * new\<close> of income and of revenue to the next iteration.
\<close>

theorem income_revenue_iteration:
  "flows d ts ic rv i j s =
     ts i j s * (a d ! i ! s * ic i + (\<Sum>s'<n_sectors (dims d). alpha d ! i ! s' ! s * rv i s')) \<and>
   tariff_rev d ts tar ic rv i =
     (\<Sum>j<n_countries (dims d). \<Sum>s<n_sectors (dims d).
        ((tar ! i ! j ! s - 1) / tar ! i ! j ! s) * flows d ts ic rv i j s) \<and>
   income_new d ts tar w ic rv i = w i * L d ! i + tariff_rev d ts tar ic rv i + D d ! i \<and>
   revenues_new d ts tar ice ic rv j s =
     (\<Sum>i<n_countries (dims d). flows d ts ic rv i j s / (ice ! i ! j ! s * tar ! i ! j ! s)) \<and>
   income_revenue_loop d ts tar ice w tol (Suc n) (ic, rv, tr) =
     (case inner_max_diff d ts tar ice w ic rv of
        Inl e \<Rightarrow> Inl e
      | Inr max_diff \<Rightarrow>
          if max_diff < tol
          then Inr (income_new d ts tar w ic rv, revenues_new d ts tar ice ic rv,
                    tariff_rev d ts tar ic rv)
          else income_revenue_loop d ts tar ice w tol n
                 (\<lambda>i. 0.5 * ic i + 0.5 * income_new d ts tar w ic rv i,
                  \<lambda>i s. 0.5 * rv i s + 0.5 * revenues_new d ts tar ice ic rv i s,
                  Some (tariff_rev d ts tar ic rv)))"
  by (simp add: flows_def total_exp_def exp_final_def exp_intermediate_def tariff_rev_def
      tariff_component_def income_new_def revenues_new_def)

lemma inner_iterate_Suc_right:
  "inner_iterate d ts tar ice w (Suc k) st = blend_step d ts tar ice w (inner_iterate d ts tar ice w k st)"
  by (induction k arbitrary: st) simp_all

lemma loop_converged_at:
  "k < n \<Longrightarrow>
   (\<And>m. m < k \<Longrightarrow> inner_continues d ts tar ice w tol (inner_iterate d ts tar ice w m st)) \<Longrightarrow>
   inner_converged d ts tar ice w tol (inner_iterate d ts tar ice w k st) \<Longrightarrow>
   income_revenue_loop d ts tar ice w tol n (fst st, snd st, tr) =
     Inr (income_new d ts tar w (fst (inner_iterate d ts tar ice w k st)) (snd (inner_iterate d ts tar ice w k st)),
          revenues_new d ts tar ice (fst (inner_iterate d ts tar ice w k st)) (snd (inner_iterate d ts tar ice w k st)),
          tariff_rev d ts tar (fst (inner_iterate d ts tar ice w k st)) (snd (inner_iterate d ts tar ice w k st)))"
proof (induction k arbitrary: n st tr)
  case 0
  then obtain n' where n: "n = Suc n'" by (cases n) auto
  from "0.prems"(3) show ?case
    by (auto simp: n inner_converged_def split: sum.splits)
next
  case (Suc k)
  then obtain n' where n: "n = Suc n'" and kn: "k < n'" by (cases n) auto
  have c0: "inner_continues d ts tar ice w tol st"
    using Suc.prems(2)[of 0] by simp
  have later: "\<And>m. m < k \<Longrightarrow>
      inner_continues d ts tar ice w tol (inner_iterate d ts tar ice w m (blend_step d ts tar ice w st))"
    using Suc.prems(2) by (metis Suc_less_eq inner_iterate.simps(2))
  have conv: "inner_converged d ts tar ice w tol (inner_iterate d ts tar ice w k (blend_step d ts tar ice w st))"
    using Suc.prems(3) by simp
  have step: "income_revenue_loop d ts tar ice w tol n (fst st, snd st, tr) =
      income_revenue_loop d ts tar ice w tol n'
        (fst (blend_step d ts tar ice w st), snd (blend_step d ts tar ice w st),
         Some (tariff_rev d ts tar (fst st) (snd st)))"
    using c0 by (auto simp: n inner_continues_def blend_step_def split: sum.splits)
  show ?case
    unfolding step using Suc.IH[OF kn later conv] by simp
qed

lemma loop_exhausted:
  "(\<And>m. m < Suc n \<Longrightarrow> inner_continues d ts tar ice w tol (inner_iterate d ts tar ice w m st)) \<Longrightarrow>
   income_revenue_loop d ts tar ice w tol (Suc n) (fst st, snd st, tr) =
     Inr (fst (inner_iterate d ts tar ice w (Suc n) st),
          snd (inner_iterate d ts tar ice w (Suc n) st),
          tariff_rev d ts tar (fst (inner_iterate d ts tar ice w n st)) (snd (inner_iterate d ts tar ice w n st)))"
proof (induction n arbitrary: st tr)
  case 0
  have c0: "inner_continues d ts tar ice w tol st"
    using "0.prems"[of 0] by simp
  then show ?case
    by (auto simp: inner_continues_def blend_step_def split: sum.splits)
next
  case (Suc n)
  have c0: "inner_continues d ts tar ice w tol st"
    using Suc.prems[of 0] by simp
  have later: "\<And>m. m < Suc n \<Longrightarrow>
      inner_continues d ts tar ice w tol (inner_iterate d ts tar ice w m (blend_step d ts tar ice w st))"
    using Suc.prems by (metis Suc_less_eq inner_iterate.simps(2))
  have step: "income_revenue_loop d ts tar ice w tol (Suc (Suc n)) (fst st, snd st, tr) =
      income_revenue_loop d ts tar ice w tol (Suc n)
        (fst (blend_step d ts tar ice w st), snd (blend_step d ts tar ice w st),
         Some (tariff_rev d ts tar (fst st) (snd st)))"
    using c0 by (auto simp: inner_continues_def blend_step_def split: sum.splits)
  show ?case
    unfolding step using Suc.IH[OF later] by simp
qed

text \<open>
  C9. \<open>welfare_change base new\<close> is, at every country, the percent change
  \<open>(new real income / base real income - 1) * 100\<close>, and comparing a state whose real
  income at \<open>i\<close> is nonzero with itself gives exactly 0 at \<open>i\<close>.
\<close>

theorem welfare_change_percent:
  "welfare_change base new i = (real_income new i / real_income base i - 1) * 100 \<and>
   (real_income x i \<noteq> 0 \<longrightarrow> welfare_change x x i = 0)"
  by (simp add: welfare_change_def)

theorem welfare_change_percent_witness:
  "real_income ex_result 0 \<noteq> 0 \<and> welfare_change ex_result ex_result 0 = 0"
  using welfare_change_percent [of ex_result ex_result 0 ex_result]
  by (simp add: ex_result_def)

lemma np_max1_one: "np_max1 (Suc 0) f = Inr (f 0)"
  by (simp add: np_max1_def lessThan_Suc)

lemma np_max2_one: "np_max2 (Suc 0) (Suc 0) f = Inr (f 0 0)"
  by (simp add: np_max2_def lessThan_Suc)

lemma ex1_inner_max_diff:
  "inner_max_diff ex1_data (\<lambda>i j s. 1) (tariff ex1_data) (iceberg ex1_data) (\<lambda>i. 1) (\<lambda>i. 1) (\<lambda>i s. 1) = Inr 0"
  by (simp add: inner_max_diff_def np_max1_one np_max2_one rel_diff_def income_new_def
      tariff_rev_def tariff_component_def revenues_new_def flows_def total_exp_def exp_final_def
      exp_intermediate_def ex1_data_def one_country_def)

text \<open>
  C10. When an iteration \<open>k + 1 \<le> max_iter\<close> of the income and revenue loop is the
  first to meet the tolerance, the loop returns the new income and new revenue computed
  in that iteration from the blended iterate \<open>(ic, rv)\<close> it started from, not their
  blend with \<open>(ic, rv)\<close>. When no iteration of a budget of at least one meets the
  tolerance, it returns the blend \<open>0.5 * old + 0.5 * new\<close> made by the last
  iteration.
\<close>

theorem inner_exit_paths:
  "(k < nat max_iter \<and>
    (\<forall>m<k. inner_continues d ts tar ice w tol (inner_iterate d ts tar ice w m (ic0, rv0))) \<and>
    inner_converged d ts tar ice w tol (inner_iterate d ts tar ice w k (ic0, rv0)) \<longrightarrow>
    (case inner_iterate d ts tar ice w k (ic0, rv0) of (ic, rv) \<Rightarrow>
       solve_income_and_revenue d ts tar ice w ic0 rv0 max_iter tol =
         Inr (income_new d ts tar w ic rv, revenues_new d ts tar ice ic rv, tariff_rev d ts tar ic rv))) \<and>
   (0 < max_iter \<and>
    (\<forall>m<nat max_iter. inner_continues d ts tar ice w tol (inner_iterate d ts tar ice w m (ic0, rv0))) \<longrightarrow>
    (case inner_iterate d ts tar ice w (nat max_iter - 1) (ic0, rv0) of (ic, rv) \<Rightarrow>
       solve_income_and_revenue d ts tar ice w ic0 rv0 max_iter tol =
         Inr (\<lambda>i. 0.5 * ic i + 0.5 * income_new d ts tar w ic rv i,
              \<lambda>i s. 0.5 * rv i s + 0.5 * revenues_new d ts tar ice ic rv i s,
              tariff_rev d ts tar ic rv)))"
proof (intro conjI impI)
  assume h: "k < nat max_iter \<and>
    (\<forall>m<k. inner_continues d ts tar ice w tol (inner_iterate d ts tar ice w m (ic0, rv0))) \<and>
    inner_converged d ts tar ice w tol (inner_iterate d ts tar ice w k (ic0, rv0))"
  show "case inner_iterate d ts tar ice w k (ic0, rv0) of (ic, rv) \<Rightarrow>
       solve_income_and_revenue d ts tar ice w ic0 rv0 max_iter tol =
         Inr (income_new d ts tar w ic rv, revenues_new d ts tar ice ic rv, tariff_rev d ts tar ic rv)"
    using loop_converged_at[of k "nat max_iter" d ts tar ice w tol "(ic0, rv0)" None] h
    by (simp add: solve_income_and_revenue_def split: prod.splits)
next
  assume h: "0 < max_iter \<and>
    (\<forall>m<nat max_iter. inner_continues d ts tar ice w tol (inner_iterate d ts tar ice w m (ic0, rv0)))"
  then obtain n where n: "nat max_iter = Suc n" by (cases "nat max_iter") auto
  show "case inner_iterate d ts tar ice w (nat max_iter - 1) (ic0, rv0) of (ic, rv) \<Rightarrow>
       solve_income_and_revenue d ts tar ice w ic0 rv0 max_iter tol =
         Inr (\<lambda>i. 0.5 * ic i + 0.5 * income_new d ts tar w ic rv i,
              \<lambda>i s. 0.5 * rv i s + 0.5 * revenues_new d ts tar ice ic rv i s,
              tariff_rev d ts tar ic rv)"
  proof -
    have "income_revenue_loop d ts tar ice w tol (Suc n) (ic0, rv0, None) =
       Inr (fst (inner_iterate d ts tar ice w (Suc n) (ic0, rv0)),
            snd (inner_iterate d ts tar ice w (Suc n) (ic0, rv0)),
            tariff_rev d ts tar (fst (inner_iterate d ts tar ice w n (ic0, rv0)))
              (snd (inner_iterate d ts tar ice w n (ic0, rv0))))"
      using loop_exhausted[of n d ts tar ice w tol "(ic0, rv0)" None] h n by simp
    then show ?thesis
      unfolding inner_iterate_Suc_right solve_income_and_revenue_def n
      by (simp add: blend_step_def split: prod.splits
          del: income_revenue_loop.simps inner_iterate.simps)
  qed
qed

theorem inner_exit_paths_witness:
  "solve_income_and_revenue ex1_data (\<lambda>i j s. 1) (tariff ex1_data) (iceberg ex1_data) (\<lambda>i. 1)
      (\<lambda>i. 1) (\<lambda>i s. 1) 500 (1 / 10 ^ 9) =
     Inr (income_new ex1_data (\<lambda>i j s. 1) (tariff ex1_data) (\<lambda>i. 1) (\<lambda>i. 1) (\<lambda>i s. 1),
          revenues_new ex1_data (\<lambda>i j s. 1) (tariff ex1_data) (iceberg ex1_data) (\<lambda>i. 1) (\<lambda>i s. 1),
          tariff_rev ex1_data (\<lambda>i j s. 1) (tariff ex1_data) (\<lambda>i. 1) (\<lambda>i s. 1)) \<and>
   solve_income_and_revenue ex1_data (\<lambda>i j s. 1) (tariff ex1_data) (iceberg ex1_data) (\<lambda>i. 1)
      (\<lambda>i. 1) (\<lambda>i s. 1) 1 0 =
     Inr (\<lambda>i. 0.5 * 1 + 0.5 * income_new ex1_data (\<lambda>i j s. 1) (tariff ex1_data) (\<lambda>i. 1) (\<lambda>i. 1) (\<lambda>i s. 1) i,
          \<lambda>i s. 0.5 * 1 + 0.5 * revenues_new ex1_data (\<lambda>i j s. 1) (tariff ex1_data) (iceberg ex1_data) (\<lambda>i. 1) (\<lambda>i s. 1) i s,
          tariff_rev ex1_data (\<lambda>i j s. 1) (tariff ex1_data) (\<lambda>i. 1) (\<lambda>i s. 1))"
  using inner_exit_paths [of 0 500 ex1_data "\<lambda>i j s. 1" "tariff ex1_data" "iceberg ex1_data"
      "\<lambda>i. 1" "1 / 10 ^ 9" "\<lambda>i. 1" "\<lambda>i s. 1"]
    inner_exit_paths [of 0 1 ex1_data "\<lambda>i j s. 1" "tariff ex1_data" "iceberg ex1_data"
      "\<lambda>i. 1" 0 "\<lambda>i. 1" "\<lambda>i s. 1"]
  by (simp add: inner_converged_def inner_continues_def ex1_inner_max_diff)

subsection \<open>The one-country example\<close>

lemma oc_fields:
  "dims (one_country g) = \<lparr>n_countries = 1, n_sectors = 1\<rparr>"
  "a (one_country g) = [[1]]" "L (one_country g) = [1]" "D (one_country g) = [0]"
  "alpha (one_country g) = [[[0]]]" "beta (one_country g) = [[1]]" "z (one_country g) = [[1]]"
  "sigma (one_country g) = [2]" "gamma (one_country g) = [[[g]]]"
  "tariff (one_country g) = [[[1]]]" "iceberg (one_country g) = [[[1]]]"
  by (simp_all add: one_country_def)

lemma oc_costs: "w 0 = 1 \<Longrightarrow> p 0 0 = 1 \<Longrightarrow> unit_costs (one_country g) w p 0 0 = 1"
  by (simp add: unit_costs_def io_term_def Let_def oc_fields)

lemma oc_denom: "costs 0 0 = 1 \<Longrightarrow> denom (one_country g) costs [[[1]]] [[[1]]] 0 0 = g"
  by (simp add: denom_def ces_term_def delivered_def lessThan_Suc ces_power_def oc_fields)

lemma oc_new_price:
  "0 < g \<Longrightarrow> costs 0 0 = 1 \<Longrightarrow> fst (price_index (one_country g) costs [[[1]]] [[[1]]]) 0 0 = 1 / g"
  by (simp add: price_index_def Let_def oc_denom ces_power_def oc_fields powr_minus_divide)

lemma oc_share:
  "0 < g \<Longrightarrow> costs 0 0 = 1 \<Longrightarrow> snd (price_index (one_country g) costs [[[1]]] [[[1]]]) 0 0 0 = 1"
  by (simp add: price_index_def Let_def oc_denom)
     (simp add: ces_term_def delivered_def ces_power_def oc_fields)

lemma oc_income_new:
  "w 0 = 1 \<Longrightarrow> income_new (one_country g) ts [[[1]]] w ic rv 0 = 1"
  by (simp add: income_new_def tariff_rev_def tariff_component_def oc_fields)

lemma oc_revenues_new:
  "ts 0 0 0 = 1 \<Longrightarrow> revenues_new (one_country g) ts [[[1]]] [[[1]]] ic rv 0 0 = ic 0"
  by (simp add: revenues_new_def flows_def total_exp_def exp_final_def exp_intermediate_def
      oc_fields)

lemma oc_inner_max_diff:
  "ts 0 0 0 = 1 \<Longrightarrow> w 0 = 1 \<Longrightarrow> ic 0 = 1 \<Longrightarrow> rv 0 0 = 1 \<Longrightarrow>
   inner_max_diff (one_country g) ts [[[1]]] [[[1]]] w ic rv = Inr 0"
  by (simp add: inner_max_diff_def oc_income_new oc_revenues_new rel_diff_def oc_fields
      np_max1_one np_max2_one)

lemma loop_unfold:
  "0 < n \<Longrightarrow> income_revenue_loop d ts tar ice w tol n (ic, rv, tr) =
     (case inner_max_diff d ts tar ice w ic rv of
        Inl e \<Rightarrow> Inl e
      | Inr max_diff \<Rightarrow>
          if max_diff < tol
          then Inr (income_new d ts tar w ic rv, revenues_new d ts tar ice ic rv,
                    tariff_rev d ts tar ic rv)
          else income_revenue_loop d ts tar ice w tol (n - 1)
                 (\<lambda>i. 0.5 * ic i + 0.5 * income_new d ts tar w ic rv i,
                  \<lambda>i s. 0.5 * rv i s + 0.5 * revenues_new d ts tar ice ic rv i s,
                  Some (tariff_rev d ts tar ic rv)))"
  by (cases n) (auto split: sum.splits)

lemma oc_solve_inner:
  assumes "ts 0 0 0 = 1" "w 0 = 1" "ic 0 = 1" "rv 0 0 = 1"
  shows "solve_income_and_revenue (one_country g) ts [[[1]]] [[[1]]] w ic rv
           inner_default_max_iter inner_default_tol =
         Inr (income_new (one_country g) ts [[[1]]] w ic rv,
              revenues_new (one_country g) ts [[[1]]] [[[1]]] ic rv,
              tariff_rev (one_country g) ts [[[1]]] ic rv)"
proof -
  have pos: "0 < nat inner_default_max_iter"
    by (simp add: inner_default_max_iter_def)
  have md: "inner_max_diff (one_country g) ts [[[1]]] [[[1]]] w ic rv = Inr 0"
    using assms by (simp add: oc_inner_max_diff)
  show ?thesis
    unfolding solve_income_and_revenue_def loop_unfold[OF pos] md
    by (simp add: inner_default_tol_def)
qed

lemma oc_outer_inner:
  assumes g: "0 < g" and st: "st_wages st 0 = 1" "st_prices st 0 0 = 1" "st_income st 0 = 1"
    "st_revenues st 0 0 = 1"
  shows "\<exists>np ts ic rv trv.
           outer_inner (one_country g) [[[1]]] [[[1]]] st = Inr (np, ts, ic, rv, trv) \<and>
           np 0 0 = 1 / g \<and> ic 0 = 1 \<and> rv 0 0 = 1"
proof -
  let ?costs = "unit_costs (one_country g) (st_wages st) (st_prices st)"
  let ?ts = "snd (price_index (one_country g) ?costs [[[1]]] [[[1]]])"
  have c: "?costs 0 0 = 1"
    using st by (simp add: oc_costs)
  have ts: "?ts 0 0 0 = 1"
    using g c by (rule oc_share)
  have np: "fst (price_index (one_country g) ?costs [[[1]]] [[[1]]]) 0 0 = 1 / g"
    using g c by (rule oc_new_price)
  have rv: "revenues_new (one_country g) ?ts [[[1]]] [[[1]]] (st_income st) (st_revenues st) 0 0 = 1"
    using ts st by (simp add: oc_revenues_new)
  have ic: "income_new (one_country g) ?ts [[[1]]] (st_wages st) (st_income st) (st_revenues st) 0 = 1"
    using st by (simp add: oc_income_new)
  have inner: "solve_income_and_revenue (one_country g) ?ts [[[1]]] [[[1]]] (st_wages st)
      (st_income st) (st_revenues st) inner_default_max_iter inner_default_tol =
         Inr (income_new (one_country g) ?ts [[[1]]] (st_wages st) (st_income st) (st_revenues st),
              revenues_new (one_country g) ?ts [[[1]]] [[[1]]] (st_income st) (st_revenues st),
              tariff_rev (one_country g) ?ts [[[1]]] (st_income st) (st_revenues st))"
    using ts st by (simp add: oc_solve_inner)
  show ?thesis
    unfolding outer_inner_def Let_def inner
    using np rv ic by simp
qed

lemma oc_wages_raw: "w 0 = 1 \<Longrightarrow> rv 0 0 = 1 \<Longrightarrow> wages_raw (one_country g) damp w rv 0 = 1"
  by (simp add: wages_raw_def labor_demand_def oc_fields)

lemma oc_outer_max_diff:
  "wn 0 = 1 \<Longrightarrow> w 0 = 1 \<Longrightarrow> p 0 0 = 1 \<Longrightarrow> np 0 0 = 1 / g \<Longrightarrow>
   outer_max_diff (one_country g) w wn p np = Inr (\<bar>1 / g - 1\<bar> / (1 + 1 / 10 ^ 12))"
  by (simp add: outer_max_diff_def oc_fields np_max1_one np_max2_one rel_diff_def)

lemma oc_outer_iteration:
  assumes g: "0 < g" and st: "st_wages st 0 = 1" "st_prices st 0 0 = 1" "st_income st 0 = 1"
    "st_revenues st 0 0 = 1"
  shows "\<exists>st'. outer_iteration (one_country g) [[[1]]] [[[1]]] damp st =
             Inr (st', \<bar>1 / g - 1\<bar> / (1 + 1 / 10 ^ 12)) \<and>
           st_wages st' 0 = 1 \<and> st_prices st' 0 0 = (1 - damp) + damp * (1 / g) \<and>
           st_income st' 0 = 1 \<and> st_revenues st' 0 0 = 1"
proof -
  obtain np ts ic rv trv where
    inn: "outer_inner (one_country g) [[[1]]] [[[1]]] st = Inr (np, ts, ic, rv, trv)"
    and np: "np 0 0 = 1 / g" and ic: "ic 0 = 1" and rv: "rv 0 0 = 1"
    using oc_outer_inner[OF g st] by blast
  have wr: "wages_raw (one_country g) damp (st_wages st) rv 0 = 1"
    using st rv by (simp add: oc_wages_raw)
  show ?thesis
    unfolding outer_iteration_def inn
    by (simp add: Let_def oc_outer_max_diff oc_fields wr damp_prices_def st np rv ic)
qed

subsection \<open>The numeraire\<close>

lemma outer_iteration_numeraire:
  "outer_iteration d tar ice damp st = Inr (st', md) \<Longrightarrow>
   outer_inner d tar ice st = Inr (np, ts, ic, rv, trv) \<Longrightarrow>
   wages_raw d damp (st_wages st) rv 0 \<noteq> 0 \<Longrightarrow> st_wages st' 0 = 1"
  by (auto simp: outer_iteration_def Let_def split: sum.splits if_splits)

lemma outer_loop_numeraire:
  "wage_updates_nonzero d tar ice tol damp n st \<Longrightarrow> st_wages st 0 = 1 \<Longrightarrow>
   outer_loop d tar ice tol damp n st = Inr st' \<Longrightarrow> st_wages st' 0 = 1"
proof (induction n arbitrary: st)
  case 0
  then show ?case by simp
next
  case (Suc n)
  from Suc.prems(3) obtain st1 md where it: "outer_iteration d tar ice damp st = Inr (st1, md)"
    by (auto split: sum.splits)
  then obtain np ts ic rv trv where inn: "outer_inner d tar ice st = Inr (np, ts, ic, rv, trv)"
    by (auto simp: outer_iteration_def split: sum.splits)
  from Suc.prems(1) inn it have nz: "wages_raw d damp (st_wages st) rv 0 \<noteq> 0"
    and rest: "md < tol \<or> wage_updates_nonzero d tar ice tol damp n st1"
    by auto
  have w1: "st_wages st1 0 = 1"
    using outer_iteration_numeraire[OF it inn nz] .
  show ?case
  proof (cases "md < tol")
    case True
    with Suc.prems(3) it have "st' = st1" by simp
    with w1 show ?thesis by simp
  next
    case False
    with Suc.prems(3) it have "outer_loop d tar ice tol damp n st1 = Inr st'" by simp
    moreover from False rest have "wage_updates_nonzero d tar ice tol damp n st1" by simp
    ultimately show ?thesis using Suc.IH w1 by blast
  qed
qed

text \<open>
  C2. After every iteration of the outer solver country 0 has the wage 1, and so it has
  in the state \<open>solve_equilibrium\<close> returns, provided the wage update of country 0 is
  nonzero in every iteration before it is divided by itself.
\<close>

theorem numeraire_invariant:
  "(outer_inner d tar ice st = Inr (np, ts, ic, rv, trv) \<and>
    wages_raw d damp (st_wages st) rv 0 \<noteq> 0 \<and>
    outer_iteration d tar ice damp st = Inr (st', md) \<longrightarrow> st_wages st' 0 = 1) \<and>
   (wage_updates_nonzero d
      (case tariff_arg of None \<Rightarrow> tariff d | Some t \<Rightarrow> t)
      (case iceberg_arg of None \<Rightarrow> iceberg d | Some t \<Rightarrow> t)
      tol damp (nat max_iter) (initial_state d) \<and>
    solve_equilibrium d tariff_arg iceberg_arg max_iter tol damp = Inr r \<longrightarrow> wages r 0 = 1)"
proof (intro conjI impI)
  assume "outer_inner d tar ice st = Inr (np, ts, ic, rv, trv) \<and>
    wages_raw d damp (st_wages st) rv 0 \<noteq> 0 \<and>
    outer_iteration d tar ice damp st = Inr (st', md)"
  then show "st_wages st' 0 = 1"
    using outer_iteration_numeraire by blast
next
  let ?tar = "case tariff_arg of None \<Rightarrow> tariff d | Some t \<Rightarrow> t"
  let ?ice = "case iceberg_arg of None \<Rightarrow> iceberg d | Some t \<Rightarrow> t"
  assume h: "wage_updates_nonzero d ?tar ?ice tol damp (nat max_iter) (initial_state d) \<and>
    solve_equilibrium d tariff_arg iceberg_arg max_iter tol damp = Inr r"
  then obtain st1 where l: "outer_loop d ?tar ?ice tol damp (nat max_iter) (initial_state d) = Inr st1"
    and r: "wages r = st_wages st1"
    by (auto simp: solve_equilibrium_def Let_def split: sum.splits option.splits)
  have "st_wages (initial_state d) 0 = 1"
    by (simp add: initial_state_def)
  with h l have "st_wages st1 0 = 1"
    using outer_loop_numeraire by blast
  with r show "wages r 0 = 1" by simp
qed

lemma outer_loop_unfold:
  "0 < n \<Longrightarrow> outer_loop d tar ice tol damp n st =
     (case outer_iteration d tar ice damp st of
        Inl e \<Rightarrow> Inl e
      | Inr (st', max_diff) \<Rightarrow>
          if max_diff < tol then Inr st' else outer_loop d tar ice tol damp (n - 1) st')"
  by (cases n) (auto split: sum.splits)

lemma wage_updates_nonzero_unfold:
  "0 < n \<Longrightarrow> wage_updates_nonzero d tar ice tol damp n st =
     (case outer_inner d tar ice st of
        Inl e \<Rightarrow> True
      | Inr (new_prices, ts, ic, rv, trv) \<Rightarrow>
          wages_raw d damp (st_wages st) rv 0 \<noteq> 0 \<and>
          (case outer_iteration d tar ice damp st of
             Inl e \<Rightarrow> True
           | Inr (st', max_diff) \<Rightarrow>
               max_diff < tol \<or> wage_updates_nonzero d tar ice tol damp (n - 1) st'))"
  by (cases n) (auto split: sum.splits)

lemma outer_iteration_assigns:
  "outer_iteration d tar ice damp st = Inr (st', md) \<Longrightarrow>
   (\<exists>ts. st_trade_shares st' = Some ts) \<and> (\<exists>trv. st_tariff_rev st' = Some trv)"
  by (auto simp: outer_iteration_def Let_def split: sum.splits if_splits)

lemma ex1_initial:
  "st_wages (initial_state ex1_data) 0 = 1" "st_prices (initial_state ex1_data) 0 0 = 1"
  "st_income (initial_state ex1_data) 0 = 1" "st_revenues (initial_state ex1_data) 0 0 = 1"
  by (simp_all add: initial_state_def ex1_data_def oc_fields)

theorem numeraire_invariant_witness:
  "wage_updates_nonzero ex1_data (tariff ex1_data) (iceberg ex1_data) (1 / 10 ^ 8) (3 / 10)
     (nat 2000) (initial_state ex1_data) \<and>
   (\<exists>r. solve_equilibrium ex1_data None None 2000 (1 / 10 ^ 8) (3 / 10) = Inr r \<and> wages r 0 = 1)"
proof -
  let ?tol = "1 / 10 ^ 8 :: real" and ?damp = "3 / 10 :: real"
  have tar: "tariff ex1_data = [[[1]]]" and ice: "iceberg ex1_data = [[[1]]]"
    by (simp_all add: ex1_data_def oc_fields)
  obtain np ts ic rv trv where
    inn: "outer_inner ex1_data [[[1]]] [[[1]]] (initial_state ex1_data) = Inr (np, ts, ic, rv, trv)"
    and rv: "rv 0 0 = 1"
    using oc_outer_inner[of 1 "initial_state ex1_data"] ex1_initial
    unfolding ex1_data_def[symmetric] by auto
  obtain st' where
    it: "outer_iteration ex1_data [[[1]]] [[[1]]] ?damp (initial_state ex1_data) = Inr (st', 0)"
    using oc_outer_iteration[of 1 "initial_state ex1_data" ?damp] ex1_initial
    unfolding ex1_data_def[symmetric] by auto
  have wr: "wages_raw ex1_data ?damp (st_wages (initial_state ex1_data)) rv 0 = 1"
    using oc_wages_raw[of "st_wages (initial_state ex1_data)" rv 1 ?damp] ex1_initial rv
    unfolding ex1_data_def[symmetric] by simp
  have nz: "wage_updates_nonzero ex1_data [[[1]]] [[[1]]] ?tol ?damp 2000 (initial_state ex1_data)"
    by (simp add: wage_updates_nonzero_unfold inn it wr)
  have loop: "outer_loop ex1_data [[[1]]] [[[1]]] ?tol ?damp 2000 (initial_state ex1_data) = Inr st'"
    by (simp add: outer_loop_unfold it)
  obtain ts' trv' where "st_trade_shares st' = Some ts'" "st_tariff_rev st' = Some trv'"
    using outer_iteration_assigns[OF it] by blast
  with loop have "\<exists>r. solve_equilibrium ex1_data None None 2000 ?tol ?damp = Inr r"
    by (simp add: solve_equilibrium_def tar ice)
  then obtain r where r: "solve_equilibrium ex1_data None None 2000 ?tol ?damp = Inr r" ..
  have "wages r 0 = 1"
    using numeraire_invariant[of ex1_data "[[[1]]]" "[[[1]]]" "initial_state ex1_data" np ts ic rv trv
        ?damp st' 0 None None ?tol 2000 r] nz r
    by (simp add: tar ice)
  with nz r show ?thesis
    by (auto simp: tar ice)
qed

subsection \<open>The stopping test of the outer solver\<close>

lemma ex5_initial:
  "st_wages (initial_state ex5_data) 0 = 1" "st_prices (initial_state ex5_data) 0 0 = 1"
  "st_income (initial_state ex5_data) 0 = 1" "st_revenues (initial_state ex5_data) 0 0 = 1"
  by (simp_all add: initial_state_def ex5_data_def oc_fields)

text \<open>
  C5, as stated, fails: in the first iteration on \<open>ex5_data\<close> with the default
  \<open>damp = 0.3\<close> and \<open>tol = 1e-8\<close>, the relative change between the consecutive
  iterates is below \<open>tol\<close> (wages do not move, the price moves by
  \<open>0.3 * 2e-8\<close>), yet the solver's \<open>max_diff\<close> is not below \<open>tol\<close> and the
  loop goes on.
\<close>

theorem stop_test_counterexample:
  "(case outer_iteration ex5_data (tariff ex5_data) (iceberg ex5_data) (3 / 10)
           (initial_state ex5_data) of
      Inl e \<Rightarrow> False
    | Inr (st', max_diff) \<Rightarrow>
        \<not> max_diff < 1 / 10 ^ 8 \<and>
        (case spec_max_rel_change ex5_data (initial_state ex5_data) st' of
           Inl e \<Rightarrow> False
         | Inr change \<Rightarrow> change < 1 / 10 ^ 8))"
proof -
  have tar: "tariff ex5_data = [[[1]]]" and ice: "iceberg ex5_data = [[[1]]]"
    and dm: "dims ex5_data = \<lparr>n_countries = 1, n_sectors = 1\<rparr>"
    by (simp_all add: ex5_data_def oc_fields)
  obtain st' where
    it: "outer_iteration ex5_data [[[1]]] [[[1]]] (3 / 10) (initial_state ex5_data) =
           Inr (st', \<bar>1 / (50000000 / 50000001) - 1\<bar> / (1 + 1 / 10 ^ 12))"
    and w: "st_wages st' 0 = 1"
    and p: "st_prices st' 0 0 = (1 - 3 / 10) + 3 / 10 * (1 / (50000000 / 50000001))"
    using oc_outer_iteration[of "50000000 / 50000001" "initial_state ex5_data" "3 / 10"] ex5_initial
    unfolding ex5_data_def[symmetric] by auto
  have sp: "spec_max_rel_change ex5_data (initial_state ex5_data) st' =
      Inr (max (rel_diff 1 1) (rel_diff ((1 - 3 / 10) + 3 / 10 * (1 / (50000000 / 50000001))) 1))"
    by (simp add: spec_max_rel_change_def dm np_max1_one np_max2_one w p ex5_initial)
  show ?thesis
    by (simp add: tar ice it sp rel_diff_def)
qed

text \<open>
  C5, amended. With iterations left, the outer solver stops after an iteration exactly
  when that iteration's \<open>max_diff\<close> is below \<open>tol\<close>, where \<open>max_diff\<close> is the
  greatest of the relative changes of the wages from the previous iterate to the next
  and of the relative distances of the undamped CES prices \<open>np\<close> of this iteration
  from the previous prices, each divided by the previous absolute value plus
  \<open>1e-12\<close>. The next price iterate moves only by \<open>damp\<close> times that distance.
\<close>

theorem outer_stop_test:
  "outer_loop d tar ice tol damp (Suc n) st =
     (case outer_iteration d tar ice damp st of
        Inl e \<Rightarrow> Inl e
      | Inr (st', max_diff) \<Rightarrow>
          if max_diff < tol then Inr st' else outer_loop d tar ice tol damp n st') \<and>
   (outer_inner d tar ice st = Inr (np, ts, ic, rv, trv) \<and>
    outer_iteration d tar ice damp st = Inr (st', md) \<longrightarrow>
      md = max (Max ((\<lambda>i. \<bar>st_wages st' i - st_wages st i\<bar> / (\<bar>st_wages st i\<bar> + 1 / 10 ^ 12)) `
                     {..<n_countries (dims d)}))
               (Max ((\<lambda>(i, s). \<bar>np i s - st_prices st i s\<bar> / (\<bar>st_prices st i s\<bar> + 1 / 10 ^ 12)) `
                     ({..<n_countries (dims d)} \<times> {..<n_sectors (dims d)}))) \<and>
      np = fst (price_index d (unit_costs d (st_wages st) (st_prices st)) tar ice) \<and>
      (\<forall>i s. st_prices st' i s - st_prices st i s = damp * (np i s - st_prices st i s)))"
proof (intro conjI impI)
  show "outer_loop d tar ice tol damp (Suc n) st =
     (case outer_iteration d tar ice damp st of
        Inl e \<Rightarrow> Inl e
      | Inr (st', max_diff) \<Rightarrow>
          if max_diff < tol then Inr st' else outer_loop d tar ice tol damp n st')"
    by simp
next
  assume h: "outer_inner d tar ice st = Inr (np, ts, ic, rv, trv) \<and>
    outer_iteration d tar ice damp st = Inr (st', md)"
  then show "md = max (Max ((\<lambda>i. \<bar>st_wages st' i - st_wages st i\<bar> / (\<bar>st_wages st i\<bar> + 1 / 10 ^ 12)) `
                     {..<n_countries (dims d)}))
               (Max ((\<lambda>(i, s). \<bar>np i s - st_prices st i s\<bar> / (\<bar>st_prices st i s\<bar> + 1 / 10 ^ 12)) `
                     ({..<n_countries (dims d)} \<times> {..<n_sectors (dims d)})))"
    by (auto simp: outer_iteration_def Let_def outer_max_diff_def np_max1_def np_max2_def
        rel_diff_def split: sum.splits if_splits)
  from h show "np = fst (price_index d (unit_costs d (st_wages st) (st_prices st)) tar ice)"
    by (auto simp: outer_inner_def Let_def split: sum.splits)
  from h show "\<forall>i s. st_prices st' i s - st_prices st i s = damp * (np i s - st_prices st i s)"
    by (auto simp: outer_iteration_def Let_def damp_prices_def algebra_simps
        split: sum.splits if_splits)
qed

theorem outer_stop_test_witness:
  "\<exists>np ts ic rv trv st' md.
     outer_inner ex1_data [[[1]]] [[[1]]] (initial_state ex1_data) = Inr (np, ts, ic, rv, trv) \<and>
     outer_iteration ex1_data [[[1]]] [[[1]]] (3 / 10) (initial_state ex1_data) = Inr (st', md) \<and>
     md = max (Max ((\<lambda>i. \<bar>st_wages st' i - st_wages (initial_state ex1_data) i\<bar> /
                        (\<bar>st_wages (initial_state ex1_data) i\<bar> + 1 / 10 ^ 12)) `
                     {..<n_countries (dims ex1_data)}))
              (Max ((\<lambda>(i, s). \<bar>np i s - st_prices (initial_state ex1_data) i s\<bar> /
                        (\<bar>st_prices (initial_state ex1_data) i s\<bar> + 1 / 10 ^ 12)) `
                     ({..<n_countries (dims ex1_data)} \<times> {..<n_sectors (dims ex1_data)}))) \<and>
     (\<forall>i s. st_prices st' i s - st_prices (initial_state ex1_data) i s =
        3 / 10 * (np i s - st_prices (initial_state ex1_data) i s))"
proof -
  obtain np ts ic rv trv where
    inn: "outer_inner ex1_data [[[1]]] [[[1]]] (initial_state ex1_data) = Inr (np, ts, ic, rv, trv)"
    using oc_outer_inner[of 1 "initial_state ex1_data"] ex1_initial
    unfolding ex1_data_def[symmetric] by auto
  obtain st' md where
    it: "outer_iteration ex1_data [[[1]]] [[[1]]] (3 / 10) (initial_state ex1_data) = Inr (st', md)"
    using oc_outer_iteration[of 1 "initial_state ex1_data" "3 / 10"] ex1_initial
    unfolding ex1_data_def[symmetric] by auto
  from outer_stop_test[of ex1_data "[[[1]]]" "[[[1]]]" _ "3 / 10" _ "initial_state ex1_data"
      np ts ic rv trv st' md] inn it
  show ?thesis
    by blast
qed

subsection \<open>Exhausted budgets\<close>

lemma inner_max_diff_returns:
  "0 < n_countries (dims d) \<Longrightarrow> 0 < n_sectors (dims d) \<Longrightarrow>
   \<exists>m. inner_max_diff d ts tar ice w ic rv = Inr m"
  by (simp add: inner_max_diff_def np_max1_def np_max2_def)

lemma inner_loop_returns:
  "0 < n_countries (dims d) \<Longrightarrow> 0 < n_sectors (dims d) \<Longrightarrow> 0 < n \<or> tr \<noteq> None \<Longrightarrow>
   \<exists>r. income_revenue_loop d ts tar ice w tol n (ic, rv, tr) = Inr r"
proof (induction n arbitrary: ic rv tr)
  case 0
  then show ?case by auto
next
  case (Suc n)
  obtain m where m: "inner_max_diff d ts tar ice w ic rv = Inr m"
    using inner_max_diff_returns[OF Suc.prems(1,2)] by blast
  show ?case
  proof (cases "m < tol")
    case True
    with m show ?thesis by simp
  next
    case False
    have "\<exists>r. income_revenue_loop d ts tar ice w tol n
            (\<lambda>i. 0.5 * ic i + 0.5 * income_new d ts tar w ic rv i,
             \<lambda>i s. 0.5 * rv i s + 0.5 * revenues_new d ts tar ice ic rv i s,
             Some (tariff_rev d ts tar ic rv)) = Inr r"
      by (rule Suc.IH) (use Suc.prems in auto)
    with m False show ?thesis by simp
  qed
qed

lemma outer_iteration_returns:
  assumes "0 < n_countries (dims d)" "0 < n_sectors (dims d)"
  shows "\<exists>st' md. outer_iteration d tar ice damp st = Inr (st', md)"
proof -
  let ?ts = "snd (price_index d (unit_costs d (st_wages st) (st_prices st)) tar ice)"
  have "\<exists>r. solve_income_and_revenue d ?ts tar ice (st_wages st) (st_income st) (st_revenues st)
          inner_default_max_iter inner_default_tol = Inr r"
    unfolding solve_income_and_revenue_def
    by (rule inner_loop_returns[OF assms]) (simp add: inner_default_max_iter_def)
  then obtain ic rv trv where "solve_income_and_revenue d ?ts tar ice (st_wages st) (st_income st)
      (st_revenues st) inner_default_max_iter inner_default_tol = Inr (ic, rv, trv)"
    by (metis prod_cases3)
  then have "\<exists>np. outer_inner d tar ice st = Inr (np, ?ts, ic, rv, trv)"
    by (simp add: outer_inner_def Let_def)
  then show ?thesis
    using assms
    by (auto simp: outer_iteration_def Let_def outer_max_diff_def np_max1_def np_max2_def)
qed

lemma outer_loop_returns:
  assumes "0 < n_countries (dims d)" "0 < n_sectors (dims d)"
  shows "st_trade_shares st \<noteq> None \<and> st_tariff_rev st \<noteq> None \<or> 0 < n \<Longrightarrow>
     \<exists>st'. outer_loop d tar ice tol damp n st = Inr st' \<and>
           st_trade_shares st' \<noteq> None \<and> st_tariff_rev st' \<noteq> None"
proof (induction n arbitrary: st)
  case 0
  then show ?case by simp
next
  case (Suc n)
  obtain st1 md where it: "outer_iteration d tar ice damp st = Inr (st1, md)"
    using outer_iteration_returns[OF assms] by blast
  have a: "st_trade_shares st1 \<noteq> None \<and> st_tariff_rev st1 \<noteq> None"
    using outer_iteration_assigns[OF it] by auto
  show ?case
  proof (cases "md < tol")
    case True
    with it a show ?thesis by simp
  next
    case False
    from Suc.IH[of st1] a obtain st' where "outer_loop d tar ice tol damp n st1 = Inr st'"
      "st_trade_shares st' \<noteq> None \<and> st_tariff_rev st' \<noteq> None"
      by blast
    with it False show ?thesis by simp
  qed
qed

lemma solve_equilibrium_returns:
  assumes "0 < n_countries (dims d)" "0 < n_sectors (dims d)" "0 < max_iter"
  shows "\<exists>r. solve_equilibrium d tariff_arg iceberg_arg max_iter tol damp = Inr r"
proof -
  let ?tar = "case tariff_arg of None \<Rightarrow> tariff d | Some t \<Rightarrow> t"
  let ?ice = "case iceberg_arg of None \<Rightarrow> iceberg d | Some t \<Rightarrow> t"
  from assms(3) have "0 < nat max_iter" by simp
  then obtain st' where "outer_loop d ?tar ?ice tol damp (nat max_iter) (initial_state d) = Inr st'"
      "st_trade_shares st' \<noteq> None \<and> st_tariff_rev st' \<noteq> None"
    using outer_loop_returns[OF assms(1,2), of "initial_state d" "nat max_iter" ?tar ?ice tol damp]
    by blast
  then show ?thesis
    by (auto simp: solve_equilibrium_def Let_def)
qed

text \<open>
  C4. A loop with a budget of zero iterations has exhausted it without any convergence
  measure below the tolerance, and the claim has it return its last iterate with no
  exception. The code raises instead: on the one-country example,
  \<open>solve_income_and_revenue\<close> with \<open>max_iter = 0\<close> reads the unassigned
  \<^verbatim>\<open>tariff_rev\<close> and \<open>solve_equilibrium\<close> with \<open>max_iter = 0\<close> reads the unassigned
  \<^verbatim>\<open>trade_shares\<close>. For every budget of at least one iteration on nonempty arrays both
  functions return (\<open>inner_loop_returns\<close>, \<open>solve_equilibrium_returns\<close>), the
  inner loop returning its last blend (\<open>loop_exhausted\<close>).
\<close>

theorem zero_budget_raises:
  "solve_income_and_revenue ex1_data (\<lambda>i j s. 1) (tariff ex1_data) (iceberg ex1_data) (\<lambda>i. 1)
      (\<lambda>i. 1) (\<lambda>i s. 1) 0 (1 / 10 ^ 9) = Inl (UnboundLocalError ''tariff_rev'') \<and>
   solve_equilibrium ex1_data None None 0 (1 / 10 ^ 8) (3 / 10) =
      Inl (UnboundLocalError ''trade_shares'')"
  by (simp add: solve_income_and_revenue_def solve_equilibrium_def initial_state_def)

lemma zero_budget_raises_any:
  "max_iter \<le> 0 \<Longrightarrow>
   solve_income_and_revenue d ts tar ice w ic0 rv0 max_iter tol = Inl (UnboundLocalError ''tariff_rev'') \<and>
   solve_equilibrium d tariff_arg iceberg_arg max_iter tol damp =
      Inl (UnboundLocalError ''trade_shares'')"
  by (simp add: solve_income_and_revenue_def solve_equilibrium_def initial_state_def)

text \<open>
  The returned triple has no field for the outcome: on the one-country example a run
  that meets the tolerance in its only iteration and a run with tolerance 0, which
  exhausts its budget of one, return the same values.
\<close>

lemma silent_non_convergence:
  "solve_income_and_revenue ex1_data (\<lambda>i j s. 1) [[[1]]] [[[1]]] (\<lambda>i. 1) (\<lambda>i. 1) (\<lambda>i s. 1) 1 0 = Inr r1 \<Longrightarrow>
   solve_income_and_revenue ex1_data (\<lambda>i j s. 1) [[[1]]] [[[1]]] (\<lambda>i. 1) (\<lambda>i. 1) (\<lambda>i s. 1) 1 (1 / 10 ^ 9) = Inr r2 \<Longrightarrow>
   fst r1 0 = fst r2 0 \<and> fst (snd r1) 0 0 = fst (snd r2) 0 0 \<and> snd (snd r1) 0 = snd (snd r2) 0"
  unfolding ex1_data_def
  by (auto simp: solve_income_and_revenue_def oc_inner_max_diff oc_income_new oc_revenues_new)

subsection \<open>Homogeneity\<close>









subsection \<open>Loading\<close>

lemma ocf_load_alpha:
  "load_alpha (one_country_files x e) =
     Inr (1, 1, [''A''], [''g''], [[[1]]], [[[1]]], [[[x]]])"
  by (simp add: load_alpha_def one_country_files_def sum_bind_def infer_size_def set1_def
      py_index_def label_def np_full3_def set3_def)


lemma ocf_load_inputs_raises:
  "1 - x < - (1 / 10 ^ 8) \<Longrightarrow> load_inputs (one_country_files x e) = Inl labor_shares_negative"
  apply (simp add: load_inputs_def ocf_load_alpha)
  apply (simp add: sum_bind_def implied_beta_def any_below_def Let_def)
  done









end
